theory Spec2Isabelle
  imports Main
begin

section \<open>Data model of \<open>command/ca/certificate.go\<close>\<close>

text \<open>
  The file holds the actions behind \<open>step ca certificate\<close> and \<open>step ca sign\<close>.
  Strings are Go strings read as byte lists. Every call that leaves the file (flag
  helpers, token codec, key generation, the authority client, the offline authority,
  PEM encoding, the file system, the terminal) is a field of the record \<open>env\<close>: the
  field gives the answer of the collaborator, and the call itself is appended to a
  trace of events, in program order. An action takes the trace so far and returns its
  Go \<open>error\<close> result (\<open>Inl\<close> the error, \<open>Inr\<close> for \<open>nil\<close>) with the extended trace.
\<close>

type_synonym bytes = string

text \<open>\<open>time.Time\<close>: the zero value stands for an unset bound, otherwise an instant (seconds).\<close>

datatype gotime = TimeZero | TimeAt int

text \<open>The flags and positional arguments a \<open>*cli.Context\<close> carries for these two commands.\<close>

record Context =
  Args :: "string list"
  flag_token :: string
  flag_offline :: bool
  flag_san :: "string list"
  flag_ca_url :: string
  flag_root :: string
  flag_not_before :: string
  flag_not_after :: string
  flag_ca_config :: string

text \<open>
  The errors the file builds itself carry the name of the constructing function and
  its arguments (the context argument only formats the message):
  \<open>Errorf_hostname cn hostname\<close> is "token subject 'cn' and hostname 'hostname' do not match",
  \<open>Errorf_CommonName subject cn\<close> is "token subject 'subject' and CSR CommonName 'cn' do not match",
  \<open>Errorf_not_a_request file\<close> is "error parsing file: file is not a certificate request".
  \<open>External\<close> is an error produced inside a collaborator.
\<close>

datatype error =
    IncompatibleFlagWithFlag string string
  | MutuallyExclusiveFlags string string
  | RequiredUnlessFlag string string
  | RequiredFlag string
  | InvalidFlagValue string string string
  | Errorf_hostname string string
  | Errorf_CommonName string string
  | Errorf_not_a_request string
  | Wrap error string
  | FileError error string
  | External string

text \<open>\<open>x509.CertificateRequest\<close> (wrapped by \<open>api.CertificateRequest\<close>): the fields read here.\<close>

record CertificateRequest =
  Subject_CommonName :: string
  DNSNames :: "string list"
  IPAddresses :: "string list"

datatype PrivateKey = PrivateKey bytes

datatype Certificate = Certificate bytes

text \<open>What \<open>pemutil.Read\<close> hands back as \<open>interface{}\<close>: a request, or an object of another Go type.\<close>

datatype pem_object =
    ObjCertificateRequest CertificateRequest
  | ObjCertificate Certificate
  | ObjPrivateKey PrivateKey
  | ObjOther string

record pem_Block =
  Block_Type :: string
  Block_Bytes :: bytes

datatype JSONWebToken = JSONWebToken string

text \<open>\<open>tokenClaims\<close>: the \<open>sha\<close> claim and, of the embedded \<open>jose.Claims\<close>, subject and audience.\<close>

record tokenClaims =
  SHA :: string
  Subject :: string
  Audience :: "string list"

record SignRequest =
  CsrPEM :: CertificateRequest
  OTT :: string
  NotBefore :: gotime
  NotAfter :: gotime

record SignResponse =
  ServerPEM :: Certificate
  CaPEM :: Certificate

datatype ClientOption = WithRootSHA256 string | WithRootFile string

datatype Client = Client nat

datatype offlineCA = OfflineCA nat

text \<open>The calls that reach outside the file, as they appear in the trace.\<close>

datatype event =
    EvStat string
  | EvPrompt string
  | EvNewTokenFlow string "string list" string string gotime gotime
  | EvCreateSignRequest string
  | EvParseSigned string
  | EvPrintSelected string string
  | EvNewClient string "ClientOption list"
  | EvClientSign Client SignRequest
  | EvRead string
  | EvNewOfflineCA string
  | EvGenerateToken offlineCA string
  | EvOfflineSign offlineCA SignRequest
  | EvWriteFile string bytes nat
  | EvSerializeToFile PrivateKey string nat

type_synonym trace = "event list"

text \<open>
  The collaborators. None of them is defined in \<open>certificate.go\<close>; each field is named
  after the function it stands for.
\<close>

record env =
  errs_NumberOfArguments :: "Context \<Rightarrow> nat \<Rightarrow> error option"
  flags_ParseTimeOrDuration :: "string \<Rightarrow> gotime option"
  parseValidity :: "Context \<Rightarrow> error + (gotime \<times> gotime)"
  pki_GetRootCAPath :: string
  os_Stat :: "string \<Rightarrow> error option"
  ui_Prompt :: "string \<Rightarrow> error + string"
  newTokenFlow :: "Context \<Rightarrow> string \<Rightarrow> string list \<Rightarrow> string \<Rightarrow> string \<Rightarrow> string \<Rightarrow> string
     \<Rightarrow> string \<Rightarrow> string \<Rightarrow> gotime \<Rightarrow> gotime \<Rightarrow> error + string"
  ca_CreateSignRequest :: "string \<Rightarrow> error + (SignRequest \<times> PrivateKey)"
  jose_ParseSigned :: "string \<Rightarrow> error + JSONWebToken"
  UnsafeClaimsWithoutVerification :: "JSONWebToken \<Rightarrow> error + tokenClaims"
  ca_NewClient :: "string \<Rightarrow> ClientOption list \<Rightarrow> error + Client"
  Client_Sign :: "Client \<Rightarrow> SignRequest \<Rightarrow> error + SignResponse"
  newOfflineCA :: "string \<Rightarrow> error + offlineCA"
  offlineCA_GenerateToken :: "offlineCA \<Rightarrow> Context \<Rightarrow> string \<Rightarrow> error + string"
  offlineCA_Sign :: "offlineCA \<Rightarrow> SignRequest \<Rightarrow> error + SignResponse"
  pemutil_Read :: "string \<Rightarrow> error + pem_object"
  pemutil_Serialize :: "Certificate \<Rightarrow> error + pem_Block"
  pemutil_Serialize_ToFile :: "PrivateKey \<Rightarrow> string \<Rightarrow> nat \<Rightarrow> error option"
  pem_EncodeToMemory :: "pem_Block \<Rightarrow> bytes"
  utils_WriteFile :: "string \<Rightarrow> bytes \<Rightarrow> nat \<Rightarrow> error option"
  unicode_ToLower :: "string \<Rightarrow> string"

section \<open>String helpers of the Go library\<close>

definition isASCII :: "char \<Rightarrow> bool" where
  "isASCII c = ((of_char c :: nat) < 128)"

definition isUpperASCII :: "char \<Rightarrow> bool" where
  "isUpperASCII c = (65 \<le> (of_char c :: nat) \<and> (of_char c :: nat) \<le> 90)"

definition lowerASCII :: "char \<Rightarrow> char" where
  "lowerASCII c = (if isUpperASCII c then char_of ((of_char c :: nat) + 32) else c)"

text \<open>
  \<open>strings.ToLower\<close>: a string of ASCII bytes has \<open>'a' - 'A'\<close> added to each byte in
  \<open>'A'..'Z'\<close>; any other string goes through the Unicode mapping
  (\<open>strings.Map(unicode.ToLower, s)\<close>), which is left to the environment.
\<close>

definition ToLower :: "env \<Rightarrow> string \<Rightarrow> string" where
  "ToLower e s = (if list_all isASCII s then map lowerASCII s else unicode_ToLower e s)"

text \<open>\<open>strings.HasPrefix\<close>: \<open>len(s) >= len(prefix) && s[0:len(prefix)] == prefix\<close>.\<close>

definition HasPrefix :: "string \<Rightarrow> string \<Rightarrow> bool" where
  "HasPrefix s p = (length p \<le> length s \<and> take (length p) s = p)"

text \<open>\<open>cli.Args.Get\<close>: the n-th argument, the empty string when there is none.\<close>

definition Args_Get :: "Context \<Rightarrow> nat \<Rightarrow> string" where
  "Args_Get ctx n = (if n < length (Args ctx) then Args ctx ! n else [])"

text \<open>The permission bits \<open>0600\<close> (octal).\<close>

definition mode_0600 :: nat where
  "mode_0600 = 6 * 64"

section \<open>The operations\<close>

subsection \<open>\<open>signCertificateTokenFlow\<close>\<close>

definition signCertificateTokenFlow ::
  "env \<Rightarrow> Context \<Rightarrow> string \<Rightarrow> trace \<Rightarrow> (error + string) \<times> trace" where
  "signCertificateTokenFlow e ctx subject s =
    (let sans = flag_san ctx; caURL = flag_ca_url ctx in
     if caURL = [] then (Inl (RequiredUnlessFlag ''ca-url'' ''token''), s)
     else
       case (if flag_root ctx = []
             then (let root = pki_GetRootCAPath e; s1 = s @ [EvStat root] in
                   case os_Stat e root of
                     Some err \<Rightarrow> (Inl (RequiredUnlessFlag ''root'' ''token''), s1)
                   | None \<Rightarrow> (Inr root, s1))
             else (Inr (flag_root ctx), s)) of
         (Inl err, s1) \<Rightarrow> (Inl err, s1)
       | (Inr root, s1) \<Rightarrow>
           (case flags_ParseTimeOrDuration e (flag_not_before ctx) of
              None \<Rightarrow> (Inl (InvalidFlagValue ''not-before'' (flag_not_before ctx) []), s1)
            | Some notBefore \<Rightarrow>
                (case flags_ParseTimeOrDuration e (flag_not_after ctx) of
                   None \<Rightarrow> (Inl (InvalidFlagValue ''not-after'' (flag_not_after ctx) []), s1)
                 | Some notAfter \<Rightarrow>
                     (case (if subject = []
                            then (let q = ''What DNS names or IP addresses would you like to use? (e.g. internal.smallstep.com)'';
                                      s2 = s1 @ [EvPrompt q] in
                                  case ui_Prompt e q of
                                    Inl err \<Rightarrow> (Inl err, s2)
                                  | Inr answer \<Rightarrow> (Inr answer, s2))
                            else (Inr subject, s1)) of
                        (Inl err, s2) \<Rightarrow> (Inl err, s2)
                      | (Inr subject', s2) \<Rightarrow>
                          (newTokenFlow e ctx subject' sans caURL root [] [] [] [] notBefore notAfter,
                           s2 @ [EvNewTokenFlow subject' sans caURL root notBefore notAfter])))))"

subsection \<open>\<open>signCertificateRequest\<close>\<close>

text \<open>
  Lines 356 to 372, the choice of authority URL and client options from the claims
  and the caller's \<open>--ca-url\<close> and \<open>--root\<close>.
\<close>

definition clientOptions ::
  "env \<Rightarrow> tokenClaims \<Rightarrow> string \<Rightarrow> string \<Rightarrow> trace
     \<Rightarrow> (error + (string \<times> ClientOption list)) \<times> trace" where
  "clientOptions e claims caURL root s =
    (if SHA claims \<noteq> [] \<and> Audience claims \<noteq> [] \<and>
        HasPrefix (ToLower e (hd (Audience claims))) ''http''
     then (Inr (hd (Audience claims), [WithRootSHA256 (SHA claims)]), s)
     else if caURL = [] then (Inl (RequiredFlag ''ca-url''), s)
     else if root = []
       then (let root' = pki_GetRootCAPath e; s1 = s @ [EvStat root'] in
             case os_Stat e root' of
               Some err \<Rightarrow> (Inl (RequiredFlag ''root''), s1)
             | None \<Rightarrow> (Inr (caURL, [WithRootFile root']), s1))
       else (Inr (caURL, [WithRootFile root]), s))"

text \<open>Lines 374 to 401, the exchange with the authority and the certificate file.\<close>

definition signExchange ::
  "env \<Rightarrow> string \<Rightarrow> CertificateRequest \<Rightarrow> string \<Rightarrow> gotime \<Rightarrow> gotime
     \<Rightarrow> string \<Rightarrow> ClientOption list \<Rightarrow> trace \<Rightarrow> (error + unit) \<times> trace" where
  "signExchange e token csr crtFile notBefore notAfter caURL options s =
    (let s1 = s @ [EvPrintSelected ''CA'' caURL, EvNewClient caURL options] in
     case ca_NewClient e caURL options of
       Inl err \<Rightarrow> (Inl err, s1)
     | Inr client \<Rightarrow>
         (let req = \<lparr>CsrPEM = csr, OTT = token, NotBefore = notBefore, NotAfter = notAfter\<rparr>;
              s2 = s1 @ [EvClientSign client req] in
          case Client_Sign e client req of
            Inl err \<Rightarrow> (Inl err, s2)
          | Inr resp \<Rightarrow>
              (case pemutil_Serialize e (ServerPEM resp) of
                 Inl err \<Rightarrow> (Inl err, s2)
               | Inr serverBlock \<Rightarrow>
                   (case pemutil_Serialize e (CaPEM resp) of
                      Inl err \<Rightarrow> (Inl err, s2)
                    | Inr caBlock \<Rightarrow>
                        (let data = pem_EncodeToMemory e serverBlock @ pem_EncodeToMemory e caBlock;
                             s3 = s2 @ [EvWriteFile crtFile data mode_0600] in
                         case utils_WriteFile e crtFile data mode_0600 of
                           Some err \<Rightarrow> (Inl err, s3)
                         | None \<Rightarrow> (Inr (), s3))))))"

definition signCertificateRequest ::
  "env \<Rightarrow> Context \<Rightarrow> string \<Rightarrow> CertificateRequest \<Rightarrow> string \<Rightarrow> trace
     \<Rightarrow> (error + unit) \<times> trace" where
  "signCertificateRequest e ctx token csr crtFile s =
    (let root = flag_root ctx; caURL = flag_ca_url ctx in
     case flags_ParseTimeOrDuration e (flag_not_before ctx) of
       None \<Rightarrow> (Inl (InvalidFlagValue ''not-before'' (flag_not_before ctx) []), s)
     | Some notBefore \<Rightarrow>
         (case flags_ParseTimeOrDuration e (flag_not_after ctx) of
            None \<Rightarrow> (Inl (InvalidFlagValue ''not-after'' (flag_not_after ctx) []), s)
          | Some notAfter \<Rightarrow>
              (let s1 = s @ [EvParseSigned token] in
               case jose_ParseSigned e token of
                 Inl err \<Rightarrow> (Inl (Wrap err ''error parsing flag '--token' ''), s1)
               | Inr tok \<Rightarrow>
                   (case UnsafeClaimsWithoutVerification e tok of
                      Inl err \<Rightarrow> (Inl (Wrap err ''error parsing flag '--token' ''), s1)
                    | Inr claims \<Rightarrow>
                        if ToLower e (Subject claims) \<noteq> ToLower e (Subject_CommonName csr)
                        then (Inl (Errorf_CommonName (Subject claims) (Subject_CommonName csr)), s1)
                        else
                          (case clientOptions e claims caURL root s1 of
                             (Inl err, s2) \<Rightarrow> (Inl err, s2)
                           | (Inr (caURL', options), s2) \<Rightarrow>
                               signExchange e token csr crtFile notBefore notAfter
                                 caURL' options s2)))))"

subsection \<open>\<open>signCertificateOfflineFlow\<close>\<close>

definition signCertificateOfflineFlow ::
  "env \<Rightarrow> Context \<Rightarrow> string \<Rightarrow> string \<Rightarrow> string \<Rightarrow> trace \<Rightarrow> (error + unit) \<times> trace" where
  "signCertificateOfflineFlow e ctx subject crtFile keyFile s =
    (let configFile = flag_ca_config ctx in
     if configFile = [] then (Inl (InvalidFlagValue ''ca-config'' [] []), s)
     else
       (let s1 = s @ [EvNewOfflineCA configFile] in
        case newOfflineCA e configFile of
          Inl err \<Rightarrow> (Inl err, s1)
        | Inr oca \<Rightarrow>
            (let s2 = s1 @ [EvGenerateToken oca subject] in
             case offlineCA_GenerateToken e oca ctx subject of
               Inl err \<Rightarrow> (Inl err, s2)
             | Inr token \<Rightarrow>
                 (let s3 = s2 @ [EvCreateSignRequest token] in
                  case ca_CreateSignRequest e token of
                    Inl err \<Rightarrow> (Inl err, s3)
                  | Inr (req, pk) \<Rightarrow>
                      (case parseValidity e ctx of
                         Inl err \<Rightarrow> (Inl err, s3)
                       | Inr (notBefore, notAfter) \<Rightarrow>
                           (let req' = req\<lparr>NotAfter := notAfter, NotBefore := notBefore\<rparr>;
                                s4 = s3 @ [EvOfflineSign oca req'] in
                            case offlineCA_Sign e oca req' of
                              Inl err \<Rightarrow> (Inl err, s4)
                            | Inr resp \<Rightarrow>
                                (case pemutil_Serialize e (ServerPEM resp) of
                                   Inl err \<Rightarrow> (Inl err, s4)
                                 | Inr serverBlock \<Rightarrow>
                                     (case pemutil_Serialize e (CaPEM resp) of
                                        Inl err \<Rightarrow> (Inl err, s4)
                                      | Inr caBlock \<Rightarrow>
                                          (let data = pem_EncodeToMemory e serverBlock
                                                        @ pem_EncodeToMemory e caBlock;
                                               s5 = s4 @ [EvWriteFile crtFile data mode_0600] in
                                           case utils_WriteFile e crtFile data mode_0600 of
                                             Some err \<Rightarrow> (Inl (FileError err crtFile), s5)
                                           | None \<Rightarrow>
                                               (let s6 = s5 @ [EvSerializeToFile pk keyFile mode_0600] in
                                                case pemutil_Serialize_ToFile e pk keyFile mode_0600 of
                                                  Some err \<Rightarrow> (Inl err, s6)
                                                | None \<Rightarrow>
                                                    (Inr (), s6 @ [EvPrintSelected ''Certificate'' crtFile,
                                                                   EvPrintSelected ''Private Key'' keyFile])))))))))))"

subsection \<open>\<open>newCertificateAction\<close>\<close>

text \<open>Lines 156 to 168: the token of the online flow, supplied or obtained.\<close>

definition onlineToken ::
  "env \<Rightarrow> Context \<Rightarrow> string \<Rightarrow> string \<Rightarrow> trace \<Rightarrow> (error + string) \<times> trace" where
  "onlineToken e ctx hostname token s =
    (if token = []
     then (case signCertificateTokenFlow e ctx hostname s of
             (Inr tok, s1) \<Rightarrow> (Inr tok, s1)
           | (Inl err, s1) \<Rightarrow> (Inl err, s1))
     else if flag_san ctx \<noteq> [] then (Inl (MutuallyExclusiveFlags ''token'' ''san''), s)
     else (Inr token, s))"

text \<open>Lines 179 to 190: what follows the comparison of hostname and common name.\<close>

definition signAndSaveKey ::
  "env \<Rightarrow> Context \<Rightarrow> string \<Rightarrow> SignRequest \<Rightarrow> PrivateKey \<Rightarrow> string \<Rightarrow> string \<Rightarrow> trace
     \<Rightarrow> (error + unit) \<times> trace" where
  "signAndSaveKey e ctx token req pk crtFile keyFile s =
    (case signCertificateRequest e ctx token (CsrPEM req) crtFile s of
       (Inl err, s1) \<Rightarrow> (Inl err, s1)
     | (Inr u, s1) \<Rightarrow>
         (let s2 = s1 @ [EvSerializeToFile pk keyFile mode_0600] in
          case pemutil_Serialize_ToFile e pk keyFile mode_0600 of
            Some err \<Rightarrow> (Inl err, s2)
          | None \<Rightarrow> (Inr (), s2 @ [EvPrintSelected ''Certificate'' crtFile,
                                    EvPrintSelected ''Private Key'' keyFile])))"

text \<open>Lines 170 to 190.\<close>

definition createAndSign ::
  "env \<Rightarrow> Context \<Rightarrow> string \<Rightarrow> string \<Rightarrow> string \<Rightarrow> string \<Rightarrow> trace
     \<Rightarrow> (error + unit) \<times> trace" where
  "createAndSign e ctx hostname token crtFile keyFile s =
    (let s1 = s @ [EvCreateSignRequest token] in
     case ca_CreateSignRequest e token of
       Inl err \<Rightarrow> (Inl err, s1)
     | Inr (req, pk) \<Rightarrow>
         if ToLower e hostname \<noteq> ToLower e (Subject_CommonName (CsrPEM req))
         then (Inl (Errorf_hostname (Subject_CommonName (CsrPEM req)) hostname), s1)
         else signAndSaveKey e ctx token req pk crtFile keyFile s1)"

definition newCertificateAction :: "env \<Rightarrow> Context \<Rightarrow> trace \<Rightarrow> (error + unit) \<times> trace" where
  "newCertificateAction e ctx s =
    (case errs_NumberOfArguments e ctx 3 of
       Some err \<Rightarrow> (Inl err, s)
     | None \<Rightarrow>
         (let hostname = Args_Get ctx 0;
              crtFile = Args_Get ctx 1; keyFile = Args_Get ctx 2;
              token = flag_token ctx;
              offline = flag_offline ctx in
          if offline \<and> token \<noteq> [] then (Inl (IncompatibleFlagWithFlag ''offline'' ''token''), s)
          else if offline then signCertificateOfflineFlow e ctx hostname crtFile keyFile s
          else
            (case onlineToken e ctx hostname token s of
               (Inl err, s1) \<Rightarrow> (Inl err, s1)
             | (Inr token', s1) \<Rightarrow> createAndSign e ctx hostname token' crtFile keyFile s1)))"

subsection \<open>\<open>signCertificateAction\<close>\<close>

text \<open>Lines 212 to 220: the token of \<open>step ca sign\<close>, supplied or obtained for the common name.\<close>

definition signToken ::
  "env \<Rightarrow> Context \<Rightarrow> CertificateRequest \<Rightarrow> string \<Rightarrow> trace \<Rightarrow> (error + string) \<times> trace" where
  "signToken e ctx csr token s =
    (if token = []
     then (case signCertificateTokenFlow e ctx (Subject_CommonName csr) s of
             (Inr tok, s1) \<Rightarrow> (Inr tok, s1)
           | (Inl err, s1) \<Rightarrow> (Inl err, s1))
     else (Inr token, s))"

definition signCertificateAction :: "env \<Rightarrow> Context \<Rightarrow> trace \<Rightarrow> (error + unit) \<times> trace" where
  "signCertificateAction e ctx s =
    (case errs_NumberOfArguments e ctx 2 of
       Some err \<Rightarrow> (Inl err, s)
     | None \<Rightarrow>
         (let csrFile = Args_Get ctx 0; crtFile = Args_Get ctx 1;
              s1 = s @ [EvRead csrFile] in
          case pemutil_Read e csrFile of
            Inl err \<Rightarrow> (Inl err, s1)
          | Inr csrInt \<Rightarrow>
              (case csrInt of
                 ObjCertificateRequest csr \<Rightarrow>
                   (case signToken e ctx csr (flag_token ctx) s1 of
                      (Inl err, s2) \<Rightarrow> (Inl err, s2)
                    | (Inr token, s2) \<Rightarrow>
                        (case signCertificateRequest e ctx token csr crtFile s2 of
                           (Inl err, s3) \<Rightarrow> (Inl err, s3)
                         | (Inr u, s3) \<Rightarrow> (Inr (), s3 @ [EvPrintSelected ''Certificate'' crtFile])))
               | _ \<Rightarrow> (Inl (Errorf_not_a_request csrFile), s1))))"

section \<open>Properties of traces and requests\<close>

text \<open>The events that put an output artifact on disk: the certificate file and the key file.\<close>

fun writesArtifact :: "event \<Rightarrow> bool" where
  "writesArtifact (EvWriteFile path data mode) = True"
| "writesArtifact (EvSerializeToFile pk path mode) = True"
| "writesArtifact ev = False"

text \<open>
  The validity window of a request as the specification words it: when both bounds
  are set, the first is not later than the second.
\<close>

fun validityOrdered :: "SignRequest \<Rightarrow> bool" where
  "validityOrdered req =
     (case NotBefore req of
        TimeZero \<Rightarrow> True
      | TimeAt a \<Rightarrow> (case NotAfter req of TimeZero \<Rightarrow> True | TimeAt b \<Rightarrow> a \<le> b))"

text \<open>
  The certificate artifact as the specification words it: the PEM block of the leaf
  certificate followed by the PEM block of the authority's certificate.
\<close>

definition twoPEMBlocks :: "env \<Rightarrow> SignResponse \<Rightarrow> bytes option" where
  "twoPEMBlocks e resp =
     (case pemutil_Serialize e (ServerPEM resp) of
        Inl err \<Rightarrow> None
      | Inr leaf \<Rightarrow>
          (case pemutil_Serialize e (CaPEM resp) of
             Inl err \<Rightarrow> None
           | Inr authority \<Rightarrow> Some (pem_EncodeToMemory e leaf @ pem_EncodeToMemory e authority)))"

text \<open>
  Case-insensitive equality as the specification words it, for ASCII names: the two
  strings have the same length and, position by position, the same byte or the
  upper-case and lower-case form of one letter.
\<close>

definition sameLetter :: "char \<Rightarrow> char \<Rightarrow> bool" where
  "sameLetter a b =
     (a = b \<or> (isUpperASCII a \<and> (of_char b :: nat) = of_char a + 32)
            \<or> (isUpperASCII b \<and> (of_char a :: nat) = of_char b + 32))"

definition equalIgnoringCase :: "string \<Rightarrow> string \<Rightarrow> bool" where
  "equalIgnoringCase a b = list_all2 sameLetter a b"

section \<open>A sample environment\<close>

text \<open>
  A small world to run the operations in: the clock reads 1000 seconds, a duration
  flag is resolved against it, two tokens are known (one carries a root fingerprint
  and the authority's URL as audience), the authority signs whatever it is sent, and
  every file operation succeeds.
\<close>

definition sampleParseTimeOrDuration :: "string \<Rightarrow> gotime option" where
  "sampleParseTimeOrDuration v =
     (if v = [] then Some TimeZero
      else if v = ''1h'' then Some (TimeAt (1000 + 3600))
      else if v = ''2h'' then Some (TimeAt (1000 + 7200))
      else None)"

definition sampleRequest :: CertificateRequest where
  "sampleRequest = \<lparr>Subject_CommonName = ''internal.example.com'',
                     DNSNames = [''internal.example.com''], IPAddresses = []\<rparr>"

definition sampleResponse :: SignResponse where
  "sampleResponse = \<lparr>ServerPEM = Certificate ''leaf'', CaPEM = Certificate ''root''\<rparr>"

definition sampleEnv :: env where
  "sampleEnv =
    \<lparr>errs_NumberOfArguments =
       (\<lambda>ctx n. if length (Args ctx) = n then None else Some (External ''wrong number of arguments'')),
     flags_ParseTimeOrDuration = sampleParseTimeOrDuration,
     parseValidity =
       (\<lambda>ctx. case sampleParseTimeOrDuration (flag_not_before ctx) of
                 None \<Rightarrow> Inl (InvalidFlagValue ''not-before'' (flag_not_before ctx) [])
               | Some nb \<Rightarrow>
                   (case sampleParseTimeOrDuration (flag_not_after ctx) of
                      None \<Rightarrow> Inl (InvalidFlagValue ''not-after'' (flag_not_after ctx) [])
                    | Some na \<Rightarrow> Inr (nb, na))),
     pki_GetRootCAPath = ''/home/step/.step/certs/root_ca.crt'',
     os_Stat = (\<lambda>path. None),
     ui_Prompt = (\<lambda>question. Inr ''internal.example.com''),
     newTokenFlow = (\<lambda>ctx subject sans caURL root kid iss pwd key nb na. Inr ''tok-internal''),
     ca_CreateSignRequest =
       (\<lambda>token. if token = ''tok-internal'' \<or> token = ''tok-pinned''
                 then Inr (\<lparr>CsrPEM = sampleRequest, OTT = token,
                             NotBefore = TimeZero, NotAfter = TimeZero\<rparr>, PrivateKey ''key'')
                 else Inl (External ''malformed token'')),
     jose_ParseSigned =
       (\<lambda>token. if token = ''tok-internal'' \<or> token = ''tok-pinned''
                 then Inr (JSONWebToken token)
                 else Inl (External ''malformed token'')),
     UnsafeClaimsWithoutVerification =
       (\<lambda>tok. case tok of JSONWebToken t \<Rightarrow>
                 if t = ''tok-pinned''
                 then Inr \<lparr>SHA = ''e3b0c442'', Subject = ''internal.example.com'',
                           Audience = [''https://ca.example.com/1.0/sign'']\<rparr>
                 else Inr \<lparr>SHA = [], Subject = ''internal.example.com'', Audience = []\<rparr>),
     ca_NewClient = (\<lambda>url options. Inr (Client 0)),
     Client_Sign = (\<lambda>client req. Inr sampleResponse),
     newOfflineCA = (\<lambda>config. Inr (OfflineCA 0)),
     offlineCA_GenerateToken = (\<lambda>oca ctx subject. Inr ''tok-internal''),
     offlineCA_Sign = (\<lambda>oca req. Inr sampleResponse),
     pemutil_Read =
       (\<lambda>path. if path = ''internal.csr'' then Inr (ObjCertificateRequest sampleRequest)
                else if path = ''internal.crt'' then Inr (ObjCertificate (Certificate ''leaf''))
                else Inl (External ''no such file'')),
     pemutil_Serialize =
       (\<lambda>crt. case crt of Certificate der \<Rightarrow>
                 Inr \<lparr>Block_Type = ''CERTIFICATE'', Block_Bytes = der\<rparr>),
     pemutil_Serialize_ToFile = (\<lambda>pk path mode. None),
     pem_EncodeToMemory =
       (\<lambda>b. ''-----BEGIN '' @ Block_Type b @ ''-----'' @ Block_Bytes b
               @ ''-----END '' @ Block_Type b @ ''-----''),
     utils_WriteFile = (\<lambda>path data mode. None),
     unicode_ToLower = (\<lambda>s. s)\<rparr>"

text \<open>\<open>step ca certificate internal.example.com internal.crt internal.key\<close> with no flag set.\<close>

definition sampleContext :: Context where
  "sampleContext =
    \<lparr>Args = [''internal.example.com'', ''internal.crt'', ''internal.key''],
     flag_token = [], flag_offline = False, flag_san = [],
     flag_ca_url = [], flag_root = [], flag_not_before = [], flag_not_after = [],
     flag_ca_config = []\<rparr>"

section \<open>Offline mode and its configuration\<close>

text \<open>
  C6. The offline issuance flow with no configuration path fails at once with the
  invalid-flag error for \<open>ca-config\<close>, and the trace is the one it was given: no
  authority is started, no token and no key pair are made. The same holds when
  the flow is entered through \<open>step ca certificate --offline\<close> with no token.
\<close>

theorem offline_without_config:
  assumes "flag_ca_config ctx = []"
  shows "signCertificateOfflineFlow e ctx subject crtFile keyFile s
           = (Inl (InvalidFlagValue ''ca-config'' [] []), s)
         \<and> (errs_NumberOfArguments e ctx 3 = None \<and> flag_offline ctx \<and> flag_token ctx = []
              \<longrightarrow> newCertificateAction e ctx s = (Inl (InvalidFlagValue ''ca-config'' [] []), s))"
  using assms by (simp add: signCertificateOfflineFlow_def newCertificateAction_def)

theorem offline_without_config_witness:
  "flag_ca_config (sampleContext\<lparr>flag_offline := True\<rparr>) = []
   \<and> signCertificateOfflineFlow sampleEnv (sampleContext\<lparr>flag_offline := True\<rparr>)
        ''internal.example.com'' ''internal.crt'' ''internal.key'' []
       = (Inl (InvalidFlagValue ''ca-config'' [] []), [])
   \<and> errs_NumberOfArguments sampleEnv (sampleContext\<lparr>flag_offline := True\<rparr>) 3 = None
   \<and> flag_offline (sampleContext\<lparr>flag_offline := True\<rparr>)
   \<and> flag_token (sampleContext\<lparr>flag_offline := True\<rparr>) = []
   \<and> newCertificateAction sampleEnv (sampleContext\<lparr>flag_offline := True\<rparr>) []
       = (Inl (InvalidFlagValue ''ca-config'' [] []), [])"
proof -
  have h: "flag_ca_config (sampleContext\<lparr>flag_offline := True\<rparr>) = []"
    by (simp add: sampleContext_def)
  have a: "errs_NumberOfArguments sampleEnv (sampleContext\<lparr>flag_offline := True\<rparr>) 3 = None"
    by (simp add: sampleEnv_def sampleContext_def)
  have b: "flag_offline (sampleContext\<lparr>flag_offline := True\<rparr>)
           \<and> flag_token (sampleContext\<lparr>flag_offline := True\<rparr>) = []"
    by (simp add: sampleContext_def)
  show ?thesis
    using h a b offline_without_config [OF h, of sampleEnv] by simp
qed

text \<open>
  C5. With the three positional arguments in place, \<open>--offline\<close> together with a
  non-empty \<open>--token\<close> is refused with the incompatible-flags error, and the trace is
  returned as it came: no token is parsed, no key pair generated, no name compared
  and no authority contacted.
\<close>

theorem offline_with_token_incompatible:
  assumes "errs_NumberOfArguments e ctx 3 = None"
    and "flag_offline ctx" and "flag_token ctx \<noteq> []"
  shows "newCertificateAction e ctx s = (Inl (IncompatibleFlagWithFlag ''offline'' ''token''), s)"
  using assms by (simp add: newCertificateAction_def)

theorem offline_with_token_incompatible_witness:
  "errs_NumberOfArguments sampleEnv
     (sampleContext\<lparr>flag_offline := True, flag_token := ''tok-internal''\<rparr>) 3 = None
   \<and> flag_offline (sampleContext\<lparr>flag_offline := True, flag_token := ''tok-internal''\<rparr>)
   \<and> flag_token (sampleContext\<lparr>flag_offline := True, flag_token := ''tok-internal''\<rparr>) \<noteq> []
   \<and> newCertificateAction sampleEnv
        (sampleContext\<lparr>flag_offline := True, flag_token := ''tok-internal''\<rparr>) []
       = (Inl (IncompatibleFlagWithFlag ''offline'' ''token''), [])"
proof -
  let ?ctx = "sampleContext\<lparr>flag_offline := True, flag_token := ''tok-internal''\<rparr>"
  have a: "errs_NumberOfArguments sampleEnv ?ctx 3 = None"
    by (simp add: sampleEnv_def sampleContext_def)
  have b: "flag_offline ?ctx" by simp
  have c: "flag_token ?ctx \<noteq> []" by simp
  show ?thesis
    using a b c offline_with_token_incompatible [OF a b c, of "[]"] by simp
qed

section \<open>Token and SAN list together\<close>

text \<open>
  C1, as stated, at an input where it fails: three arguments, a token, one SAN and
  \<open>--offline\<close>. The offline test comes first, so the error is the incompatible-flags
  error of \<open>offline\<close> and \<open>token\<close>, not the mutually-exclusive error of \<open>token\<close> and \<open>san\<close>.
\<close>

theorem token_and_san_offline_counterexample:
  "flag_token (sampleContext\<lparr>flag_token := ''tok-internal'', flag_san := [''hello.example.com''],
                               flag_offline := True\<rparr>) \<noteq> []
   \<and> flag_san (sampleContext\<lparr>flag_token := ''tok-internal'', flag_san := [''hello.example.com''],
                               flag_offline := True\<rparr>) \<noteq> []
   \<and> newCertificateAction sampleEnv
        (sampleContext\<lparr>flag_token := ''tok-internal'', flag_san := [''hello.example.com''],
                        flag_offline := True\<rparr>) []
       = (Inl (IncompatibleFlagWithFlag ''offline'' ''token''), [])
   \<and> newCertificateAction sampleEnv
        (sampleContext\<lparr>flag_token := ''tok-internal'', flag_san := [''hello.example.com''],
                        flag_offline := True\<rparr>) []
       \<noteq> (Inl (MutuallyExclusiveFlags ''token'' ''san''), [])"
  by (simp add: newCertificateAction_def sampleEnv_def sampleContext_def)

text \<open>
  C1, amended. With the three positional arguments in place and offline mode not
  selected, a non-empty token together with a non-empty SAN list is refused with the
  mutually-exclusive error of \<open>token\<close> and \<open>san\<close>, whatever the other flags are, and the
  trace is returned as it came: nothing was called, so no network call was made.
\<close>

theorem token_and_san_exclusive:
  assumes "errs_NumberOfArguments e ctx 3 = None"
    and "\<not> flag_offline ctx" and "flag_token ctx \<noteq> []" and "flag_san ctx \<noteq> []"
  shows "newCertificateAction e ctx s = (Inl (MutuallyExclusiveFlags ''token'' ''san''), s)"
  using assms by (simp add: newCertificateAction_def onlineToken_def)

theorem token_and_san_exclusive_witness:
  "errs_NumberOfArguments sampleEnv
     (sampleContext\<lparr>flag_token := ''tok-internal'', flag_san := [''hello.example.com'']\<rparr>) 3 = None
   \<and> \<not> flag_offline (sampleContext\<lparr>flag_token := ''tok-internal'', flag_san := [''hello.example.com'']\<rparr>)
   \<and> flag_token (sampleContext\<lparr>flag_token := ''tok-internal'', flag_san := [''hello.example.com'']\<rparr>) \<noteq> []
   \<and> flag_san (sampleContext\<lparr>flag_token := ''tok-internal'', flag_san := [''hello.example.com'']\<rparr>) \<noteq> []
   \<and> newCertificateAction sampleEnv
        (sampleContext\<lparr>flag_token := ''tok-internal'', flag_san := [''hello.example.com'']\<rparr>) []
       = (Inl (MutuallyExclusiveFlags ''token'' ''san''), [])"
proof -
  let ?ctx = "sampleContext\<lparr>flag_token := ''tok-internal'', flag_san := [''hello.example.com'']\<rparr>"
  have a: "errs_NumberOfArguments sampleEnv ?ctx 3 = None"
    by (simp add: sampleEnv_def sampleContext_def)
  have b: "\<not> flag_offline ?ctx" by (simp add: sampleContext_def)
  have c: "flag_token ?ctx \<noteq> []" by simp
  have d: "flag_san ?ctx \<noteq> []" by simp
  show ?thesis
    using a b c d token_and_san_exclusive [OF a b c d, of "[]"] by simp
qed

section \<open>Reading the request file\<close>

text \<open>
  C7. When the two positional arguments are in place and the input file decodes to
  an object that is not a certificate signing request, \<open>step ca sign\<close> fails with the
  "file is not a certificate request" error. The trace holds the read of the file and
  nothing more: no token flow, no client, no signing exchange.
\<close>

theorem not_a_certificate_request:
  assumes "errs_NumberOfArguments e ctx 2 = None"
    and "pemutil_Read e (Args_Get ctx 0) = Inr obj"
    and "\<forall>csr. obj \<noteq> ObjCertificateRequest csr"
  shows "signCertificateAction e ctx s
           = (Inl (Errorf_not_a_request (Args_Get ctx 0)), s @ [EvRead (Args_Get ctx 0)])"
  using assms by (cases obj) (simp_all add: signCertificateAction_def Let_def)

theorem not_a_certificate_request_witness:
  "errs_NumberOfArguments sampleEnv (sampleContext\<lparr>Args := [''internal.crt'', ''out.crt'']\<rparr>) 2 = None
   \<and> pemutil_Read sampleEnv (Args_Get (sampleContext\<lparr>Args := [''internal.crt'', ''out.crt'']\<rparr>) 0)
       = Inr (ObjCertificate (Certificate ''leaf''))
   \<and> (\<forall>csr. ObjCertificate (Certificate ''leaf'') \<noteq> ObjCertificateRequest csr)
   \<and> signCertificateAction sampleEnv (sampleContext\<lparr>Args := [''internal.crt'', ''out.crt'']\<rparr>) []
       = (Inl (Errorf_not_a_request ''internal.crt''), [EvRead ''internal.crt''])"
proof -
  let ?ctx = "sampleContext\<lparr>Args := [''internal.crt'', ''out.crt'']\<rparr>"
  have a: "errs_NumberOfArguments sampleEnv ?ctx 2 = None"
    by (simp add: sampleEnv_def)
  have g: "Args_Get ?ctx 0 = ''internal.crt''"
    by (simp add: Args_Get_def)
  have b: "pemutil_Read sampleEnv (Args_Get ?ctx 0) = Inr (ObjCertificate (Certificate ''leaf''))"
    by (simp add: g sampleEnv_def)
  have c: "\<forall>csr. ObjCertificate (Certificate ''leaf'') \<noteq> ObjCertificateRequest csr"
    by simp
  show ?thesis
    using a b c g not_a_certificate_request [OF a b c, of "[]"] by simp
qed

section \<open>Comparison of names\<close>

text \<open>
  The two identity checks compare \<open>strings.ToLower\<close> of both names. On ASCII names
  this is equality up to the case of letters.
\<close>

lemma of_char_lowerASCII:
  "(of_char (lowerASCII c) :: nat) = (if isUpperASCII c then of_char c + 32 else of_char c)"
  by (simp add: lowerASCII_def isUpperASCII_def)

lemma lowerASCII_eq_iff: "(lowerASCII a = lowerASCII b) = sameLetter a b"
proof -
  have "(lowerASCII a = lowerASCII b) = ((of_char (lowerASCII a) :: nat) = of_char (lowerASCII b))"
    by simp
  also have "\<dots> = sameLetter a b"
    unfolding of_char_lowerASCII sameLetter_def
    by (auto simp add: isUpperASCII_def)
  finally show ?thesis .
qed

lemma map_lowerASCII_eq_iff: "(map lowerASCII a = map lowerASCII b) = equalIgnoringCase a b"
  unfolding equalIgnoringCase_def
proof (induction a arbitrary: b)
  case Nil
  then show ?case by simp
next
  case (Cons x xs)
  then show ?case by (cases b) (simp_all add: lowerASCII_eq_iff)
qed

lemma ToLower_ASCII_eq_iff:
  assumes "list_all isASCII a" and "list_all isASCII b"
  shows "(ToLower e a = ToLower e b) = equalIgnoringCase a b"
  using assms by (simp add: ToLower_def map_lowerASCII_eq_iff)

section \<open>Runs in the sample environment\<close>

lemma ToLower_hostname: "ToLower e ''internal.example.com'' = ''internal.example.com''"
  unfolding ToLower_def by code_simp

lemma ToLower_hostname_mixed: "ToLower e ''Internal.Example.COM'' = ''internal.example.com''"
  unfolding ToLower_def by code_simp

lemma ToLower_other: "ToLower e ''other.example.com'' = ''other.example.com''"
  unfolding ToLower_def by code_simp

lemma ToLower_audience:
  "ToLower e ''https://ca.example.com/1.0/sign'' = ''https://ca.example.com/1.0/sign''"
  unfolding ToLower_def by code_simp

lemmas sample_defs =
  sampleEnv_def sampleContext_def sampleRequest_def sampleResponse_def
  sampleParseTimeOrDuration_def

lemmas sample_ToLower =
  ToLower_hostname ToLower_hostname_mixed ToLower_other ToLower_audience

lemma sample_Args:
  "Args_Get (sampleContext\<lparr>Args := [a, b, c], flag_token := t\<rparr>) 0 = a"
  "Args_Get (sampleContext\<lparr>Args := [a, b, c], flag_token := t\<rparr>) 1 = b"
  "Args_Get (sampleContext\<lparr>Args := [a, b, c], flag_token := t\<rparr>) (Suc 0) = b"
  "Args_Get (sampleContext\<lparr>Args := [a, b, c], flag_token := t\<rparr>) 2 = c"
  by (simp_all add: Args_Get_def)

lemma sample_pinned_exchange:
  "signAndSaveKey sampleEnv (sampleContext\<lparr>Args := [a, ''internal.crt'', ''internal.key''],
                                            flag_token := ''tok-pinned''\<rparr>) ''tok-pinned''
     \<lparr>CsrPEM = sampleRequest, OTT = ''tok-pinned'', NotBefore = TimeZero, NotAfter = TimeZero\<rparr>
     (PrivateKey ''key'') ''internal.crt'' ''internal.key'' [EvCreateSignRequest ''tok-pinned'']
   = (Inr (),
      [EvCreateSignRequest ''tok-pinned'',
       EvParseSigned ''tok-pinned'',
       EvPrintSelected ''CA'' ''https://ca.example.com/1.0/sign'',
       EvNewClient ''https://ca.example.com/1.0/sign'' [WithRootSHA256 ''e3b0c442''],
       EvClientSign (Client 0)
         \<lparr>CsrPEM = sampleRequest, OTT = ''tok-pinned'', NotBefore = TimeZero, NotAfter = TimeZero\<rparr>,
       EvWriteFile ''internal.crt''
         ''-----BEGIN CERTIFICATE-----leaf-----END CERTIFICATE----------BEGIN CERTIFICATE-----root-----END CERTIFICATE-----''
         384,
       EvSerializeToFile (PrivateKey ''key'') ''internal.key'' 384,
       EvPrintSelected ''Certificate'' ''internal.crt'',
       EvPrintSelected ''Private Key'' ''internal.key''])"
  by (simp add: signAndSaveKey_def signCertificateRequest_def clientOptions_def signExchange_def
      HasPrefix_def sample_defs sample_ToLower Let_def mode_0600_def)

lemma sample_online_run:
  "signCertificateRequest sampleEnv
      (sampleContext\<lparr>flag_offline := True, flag_not_after := ''1h'', flag_ca_config := ''ca.json''\<rparr>)
      ''tok-pinned'' sampleRequest ''internal.crt'' []
    = (Inr (),
       [EvParseSigned ''tok-pinned'',
        EvPrintSelected ''CA'' ''https://ca.example.com/1.0/sign'',
        EvNewClient ''https://ca.example.com/1.0/sign'' [WithRootSHA256 ''e3b0c442''],
        EvClientSign (Client 0)
          \<lparr>CsrPEM = sampleRequest, OTT = ''tok-pinned'',
             NotBefore = TimeZero, NotAfter = TimeAt 4600\<rparr>,
        EvWriteFile ''internal.crt''
          ''-----BEGIN CERTIFICATE-----leaf-----END CERTIFICATE----------BEGIN CERTIFICATE-----root-----END CERTIFICATE-----''
          384])"
  by (simp add: signCertificateRequest_def clientOptions_def signExchange_def
      HasPrefix_def sample_defs sample_ToLower Let_def mode_0600_def)

lemma sample_offline_run:
  "signCertificateOfflineFlow sampleEnv
      (sampleContext\<lparr>flag_offline := True, flag_not_after := ''1h'', flag_ca_config := ''ca.json''\<rparr>)
      ''internal.example.com'' ''internal.crt'' ''internal.key'' []
    = (Inr (),
       [EvNewOfflineCA ''ca.json'',
        EvGenerateToken (OfflineCA 0) ''internal.example.com'',
        EvCreateSignRequest ''tok-internal'',
        EvOfflineSign (OfflineCA 0)
          \<lparr>CsrPEM = sampleRequest, OTT = ''tok-internal'',
             NotBefore = TimeZero, NotAfter = TimeAt 4600\<rparr>,
        EvWriteFile ''internal.crt''
          ''-----BEGIN CERTIFICATE-----leaf-----END CERTIFICATE----------BEGIN CERTIFICATE-----root-----END CERTIFICATE-----''
          384,
        EvSerializeToFile (PrivateKey ''key'') ''internal.key'' 384,
        EvPrintSelected ''Certificate'' ''internal.crt'',
        EvPrintSelected ''Private Key'' ''internal.key''])"
  by (simp add: signCertificateOfflineFlow_def sample_defs Let_def mode_0600_def)

lemma sample_certificate_run:
  "newCertificateAction sampleEnv (sampleContext\<lparr>flag_token := ''tok-pinned''\<rparr>) []
    = (Inr (),
       [EvCreateSignRequest ''tok-pinned'',
        EvParseSigned ''tok-pinned'',
        EvPrintSelected ''CA'' ''https://ca.example.com/1.0/sign'',
        EvNewClient ''https://ca.example.com/1.0/sign'' [WithRootSHA256 ''e3b0c442''],
        EvClientSign (Client 0)
          \<lparr>CsrPEM = sampleRequest, OTT = ''tok-pinned'', NotBefore = TimeZero, NotAfter = TimeZero\<rparr>,
        EvWriteFile ''internal.crt''
          ''-----BEGIN CERTIFICATE-----leaf-----END CERTIFICATE----------BEGIN CERTIFICATE-----root-----END CERTIFICATE-----''
          384,
        EvSerializeToFile (PrivateKey ''key'') ''internal.key'' 384,
        EvPrintSelected ''Certificate'' ''internal.crt'',
        EvPrintSelected ''Private Key'' ''internal.key''])"
  by (simp add: newCertificateAction_def onlineToken_def createAndSign_def signAndSaveKey_def
      signCertificateRequest_def clientOptions_def signExchange_def Args_Get_def
      HasPrefix_def sample_defs sample_ToLower Let_def mode_0600_def)

lemma sample_sign_run:
  "signCertificateAction sampleEnv
      (sampleContext\<lparr>Args := [''internal.csr'', ''internal.crt''], flag_token := ''tok-pinned''\<rparr>) []
    = (Inr (),
       [EvRead ''internal.csr'',
        EvParseSigned ''tok-pinned'',
        EvPrintSelected ''CA'' ''https://ca.example.com/1.0/sign'',
        EvNewClient ''https://ca.example.com/1.0/sign'' [WithRootSHA256 ''e3b0c442''],
        EvClientSign (Client 0)
          \<lparr>CsrPEM = sampleRequest, OTT = ''tok-pinned'', NotBefore = TimeZero, NotAfter = TimeZero\<rparr>,
        EvWriteFile ''internal.crt''
          ''-----BEGIN CERTIFICATE-----leaf-----END CERTIFICATE----------BEGIN CERTIFICATE-----root-----END CERTIFICATE-----''
          384,
        EvPrintSelected ''Certificate'' ''internal.crt''])"
  by (simp add: signCertificateAction_def signToken_def
      signCertificateRequest_def clientOptions_def signExchange_def Args_Get_def
      HasPrefix_def sample_defs sample_ToLower Let_def mode_0600_def)

section \<open>Steps that write no artifact\<close>

lemma signCertificateTokenFlow_steps:
  "\<exists>pre. snd (signCertificateTokenFlow e ctx subject s) = s @ pre \<and> filter writesArtifact pre = []"
  by (simp add: signCertificateTokenFlow_def Let_def split: option.split sum.split)

lemma onlineToken_steps:
  "\<exists>pre. snd (onlineToken e ctx hostname token s) = s @ pre \<and> filter writesArtifact pre = []"
  using signCertificateTokenFlow_steps [of e ctx hostname s]
  by (auto simp add: onlineToken_def split: prod.split sum.split)

lemma signToken_steps:
  "\<exists>pre. snd (signToken e ctx csr token s) = s @ pre \<and> filter writesArtifact pre = []"
  using signCertificateTokenFlow_steps [of e ctx "Subject_CommonName csr" s]
  by (auto simp add: signToken_def split: prod.split sum.split)

lemma clientOptions_steps:
  "\<exists>pre. snd (clientOptions e claims caURL root s) = s @ pre \<and> filter writesArtifact pre = []
         \<and> (\<forall>c r. EvClientSign c r \<notin> set pre)"
  by (simp add: clientOptions_def Let_def split: option.split)

lemma signExchange_steps:
  "\<exists>post. snd (signExchange e token csr crtFile nb na caURL options s) = s @ post
     \<and> (\<forall>c r. EvClientSign c r \<in> set post \<longrightarrow>
           r = \<lparr>CsrPEM = csr, OTT = token, NotBefore = nb, NotAfter = na\<rparr>)"
  by (simp add: signExchange_def Let_def split: option.split sum.split)

section \<open>Token subject and common name of the request\<close>

text \<open>
  C3. In \<open>signCertificateRequest\<close>, once the two validity flags and the token have
  parsed, the claimed subject and the common name of the request are compared after
  \<open>strings.ToLower\<close>. When they agree the check accepts: the operation goes on to
  choose the client options and to the exchange. When they differ it returns the
  "token subject and CSR CommonName do not match" error, and the trace holds the
  parsing of the token and nothing more: no client was built and nothing was sent.
\<close>

theorem subject_must_match_CommonName:
  assumes "flags_ParseTimeOrDuration e (flag_not_before ctx) = Some notBefore"
    and "flags_ParseTimeOrDuration e (flag_not_after ctx) = Some notAfter"
    and "jose_ParseSigned e token = Inr tok"
    and "UnsafeClaimsWithoutVerification e tok = Inr claims"
  shows "(ToLower e (Subject claims) = ToLower e (Subject_CommonName csr) \<longrightarrow>
            signCertificateRequest e ctx token csr crtFile s
              = (case clientOptions e claims (flag_ca_url ctx) (flag_root ctx)
                        (s @ [EvParseSigned token]) of
                   (Inl err, s2) \<Rightarrow> (Inl err, s2)
                 | (Inr (caURL, options), s2) \<Rightarrow>
                     signExchange e token csr crtFile notBefore notAfter caURL options s2))
       \<and> (ToLower e (Subject claims) \<noteq> ToLower e (Subject_CommonName csr) \<longrightarrow>
            signCertificateRequest e ctx token csr crtFile s
              = (Inl (Errorf_CommonName (Subject claims) (Subject_CommonName csr)),
                 s @ [EvParseSigned token]))"
  using assms by (simp add: signCertificateRequest_def Let_def)

theorem subject_must_match_CommonName_witness:
  "flags_ParseTimeOrDuration sampleEnv
       (flag_not_before (sampleContext\<lparr>flag_ca_url := ''https://ca.example.com''\<rparr>)) = Some TimeZero
   \<and> flags_ParseTimeOrDuration sampleEnv
       (flag_not_after (sampleContext\<lparr>flag_ca_url := ''https://ca.example.com''\<rparr>)) = Some TimeZero
   \<and> jose_ParseSigned sampleEnv ''tok-internal'' = Inr (JSONWebToken ''tok-internal'')
   \<and> UnsafeClaimsWithoutVerification sampleEnv (JSONWebToken ''tok-internal'')
       = Inr \<lparr>SHA = [], Subject = ''internal.example.com'', Audience = []\<rparr>
   \<and> signCertificateRequest sampleEnv (sampleContext\<lparr>flag_ca_url := ''https://ca.example.com''\<rparr>)
        ''tok-internal'' (sampleRequest\<lparr>Subject_CommonName := ''Internal.Example.COM''\<rparr>)
        ''internal.crt'' []
       = (Inr (),
          [EvParseSigned ''tok-internal'',
           EvStat ''/home/step/.step/certs/root_ca.crt'',
           EvPrintSelected ''CA'' ''https://ca.example.com'',
           EvNewClient ''https://ca.example.com''
             [WithRootFile ''/home/step/.step/certs/root_ca.crt''],
           EvClientSign (Client 0)
             \<lparr>CsrPEM = sampleRequest\<lparr>Subject_CommonName := ''Internal.Example.COM''\<rparr>,
              OTT = ''tok-internal'', NotBefore = TimeZero, NotAfter = TimeZero\<rparr>,
           EvWriteFile ''internal.crt''
             ''-----BEGIN CERTIFICATE-----leaf-----END CERTIFICATE----------BEGIN CERTIFICATE-----root-----END CERTIFICATE-----''
             384])
   \<and> signCertificateRequest sampleEnv (sampleContext\<lparr>flag_ca_url := ''https://ca.example.com''\<rparr>)
        ''tok-internal'' (sampleRequest\<lparr>Subject_CommonName := ''other.example.com''\<rparr>)
        ''internal.crt'' []
       = (Inl (Errorf_CommonName ''internal.example.com'' ''other.example.com''),
          [EvParseSigned ''tok-internal''])"
proof -
  let ?ctx = "sampleContext\<lparr>flag_ca_url := ''https://ca.example.com''\<rparr>"
  let ?claims = "\<lparr>SHA = [], Subject = ''internal.example.com'', Audience = []\<rparr>"
  have a: "flags_ParseTimeOrDuration sampleEnv (flag_not_before ?ctx) = Some TimeZero"
    by (simp add: sample_defs)
  have b: "flags_ParseTimeOrDuration sampleEnv (flag_not_after ?ctx) = Some TimeZero"
    by (simp add: sample_defs)
  have c: "jose_ParseSigned sampleEnv ''tok-internal'' = Inr (JSONWebToken ''tok-internal'')"
    by (simp add: sample_defs)
  have d: "UnsafeClaimsWithoutVerification sampleEnv (JSONWebToken ''tok-internal'') = Inr ?claims"
    by (simp add: sample_defs)
  have o: "clientOptions sampleEnv ?claims (flag_ca_url ?ctx) (flag_root ?ctx) [EvParseSigned ''tok-internal'']
           = (Inr (''https://ca.example.com'', [WithRootFile ''/home/step/.step/certs/root_ca.crt'']),
              [EvParseSigned ''tok-internal'', EvStat ''/home/step/.step/certs/root_ca.crt''])"
    by (simp add: clientOptions_def sample_defs Let_def)
  note t1 = subject_must_match_CommonName [OF a b c d,
      of "sampleRequest\<lparr>Subject_CommonName := ''Internal.Example.COM''\<rparr>" "''internal.crt''" "[]"]
  note t2 = subject_must_match_CommonName [OF a b c d,
      of "sampleRequest\<lparr>Subject_CommonName := ''other.example.com''\<rparr>" "''internal.crt''" "[]"]
  have m: "signCertificateRequest sampleEnv ?ctx ''tok-internal''
             (sampleRequest\<lparr>Subject_CommonName := ''other.example.com''\<rparr>) ''internal.crt'' []
           = (Inl (Errorf_CommonName ''internal.example.com'' ''other.example.com''),
              [EvParseSigned ''tok-internal''])"
    using t2 by (simp add: sample_ToLower)
  have k: "signCertificateRequest sampleEnv ?ctx ''tok-internal''
             (sampleRequest\<lparr>Subject_CommonName := ''Internal.Example.COM''\<rparr>) ''internal.crt'' []
           = signExchange sampleEnv ''tok-internal''
               (sampleRequest\<lparr>Subject_CommonName := ''Internal.Example.COM''\<rparr>) ''internal.crt''
               TimeZero TimeZero ''https://ca.example.com''
               [WithRootFile ''/home/step/.step/certs/root_ca.crt'']
               [EvParseSigned ''tok-internal'', EvStat ''/home/step/.step/certs/root_ca.crt'']"
    using t1 o by (simp add: sample_ToLower)
  show ?thesis
    using a b c d m k by (simp add: signExchange_def sample_defs Let_def mode_0600_def)
qed

section \<open>Hostname and common name of the new request\<close>

text \<open>
  C4. In \<open>step ca certificate\<close> with a token given on the command line (three
  arguments, not offline, no SAN), once \<open>ca.CreateSignRequest\<close> has built the request
  from the token, the hostname argument and the common name of the request are
  compared after \<open>strings.ToLower\<close>. When they agree the check passes: the action
  is the signing of the request followed by the writing of the key. When they differ
  the action returns the "token subject and hostname do not match" error.
\<close>

theorem hostname_must_match_CommonName:
  assumes "errs_NumberOfArguments e ctx 3 = None"
    and "\<not> flag_offline ctx" and "flag_token ctx \<noteq> []" and "flag_san ctx = []"
    and "ca_CreateSignRequest e (flag_token ctx) = Inr (req, pk)"
  shows "(ToLower e (Args_Get ctx 0) = ToLower e (Subject_CommonName (CsrPEM req)) \<longrightarrow>
            newCertificateAction e ctx s
              = signAndSaveKey e ctx (flag_token ctx) req pk (Args_Get ctx 1) (Args_Get ctx 2)
                  (s @ [EvCreateSignRequest (flag_token ctx)]))
       \<and> (ToLower e (Args_Get ctx 0) \<noteq> ToLower e (Subject_CommonName (CsrPEM req)) \<longrightarrow>
            newCertificateAction e ctx s
              = (Inl (Errorf_hostname (Subject_CommonName (CsrPEM req)) (Args_Get ctx 0)),
                 s @ [EvCreateSignRequest (flag_token ctx)]))"
  using assms
  by (simp add: newCertificateAction_def onlineToken_def createAndSign_def Let_def)

theorem hostname_must_match_CommonName_witness:
  "errs_NumberOfArguments sampleEnv
       (sampleContext\<lparr>Args := [''Internal.Example.COM'', ''internal.crt'', ''internal.key''],
                       flag_token := ''tok-pinned''\<rparr>) 3 = None
   \<and> \<not> flag_offline (sampleContext\<lparr>Args := [''Internal.Example.COM'', ''internal.crt'', ''internal.key''],
                       flag_token := ''tok-pinned''\<rparr>)
   \<and> flag_token (sampleContext\<lparr>Args := [''Internal.Example.COM'', ''internal.crt'', ''internal.key''],
                       flag_token := ''tok-pinned''\<rparr>) \<noteq> []
   \<and> flag_san (sampleContext\<lparr>Args := [''Internal.Example.COM'', ''internal.crt'', ''internal.key''],
                       flag_token := ''tok-pinned''\<rparr>) = []
   \<and> ca_CreateSignRequest sampleEnv ''tok-pinned''
       = Inr (\<lparr>CsrPEM = sampleRequest, OTT = ''tok-pinned'', NotBefore = TimeZero, NotAfter = TimeZero\<rparr>,
              PrivateKey ''key'')
   \<and> newCertificateAction sampleEnv
        (sampleContext\<lparr>Args := [''Internal.Example.COM'', ''internal.crt'', ''internal.key''],
                        flag_token := ''tok-pinned''\<rparr>) []
       = (Inr (),
          [EvCreateSignRequest ''tok-pinned'',
           EvParseSigned ''tok-pinned'',
           EvPrintSelected ''CA'' ''https://ca.example.com/1.0/sign'',
           EvNewClient ''https://ca.example.com/1.0/sign'' [WithRootSHA256 ''e3b0c442''],
           EvClientSign (Client 0)
             \<lparr>CsrPEM = sampleRequest, OTT = ''tok-pinned'', NotBefore = TimeZero, NotAfter = TimeZero\<rparr>,
           EvWriteFile ''internal.crt''
             ''-----BEGIN CERTIFICATE-----leaf-----END CERTIFICATE----------BEGIN CERTIFICATE-----root-----END CERTIFICATE-----''
             384,
           EvSerializeToFile (PrivateKey ''key'') ''internal.key'' 384,
           EvPrintSelected ''Certificate'' ''internal.crt'',
           EvPrintSelected ''Private Key'' ''internal.key''])
   \<and> newCertificateAction sampleEnv
        (sampleContext\<lparr>Args := [''other.example.com'', ''internal.crt'', ''internal.key''],
                        flag_token := ''tok-pinned''\<rparr>) []
       = (Inl (Errorf_hostname ''internal.example.com'' ''other.example.com''),
          [EvCreateSignRequest ''tok-pinned''])"
proof -
  let ?req = "\<lparr>CsrPEM = sampleRequest, OTT = ''tok-pinned'', NotBefore = TimeZero, NotAfter = TimeZero\<rparr>"
  let ?ctx1 = "sampleContext\<lparr>Args := [''Internal.Example.COM'', ''internal.crt'', ''internal.key''],
                             flag_token := ''tok-pinned''\<rparr>"
  let ?ctx2 = "sampleContext\<lparr>Args := [''other.example.com'', ''internal.crt'', ''internal.key''],
                             flag_token := ''tok-pinned''\<rparr>"
  have a1: "errs_NumberOfArguments sampleEnv ?ctx1 3 = None"
    and a2: "errs_NumberOfArguments sampleEnv ?ctx2 3 = None"
    by (simp_all add: sampleEnv_def)
  have b1: "\<not> flag_offline ?ctx1" and b2: "\<not> flag_offline ?ctx2"
    by (simp_all add: sampleContext_def)
  have c1: "flag_token ?ctx1 \<noteq> []" and c2: "flag_token ?ctx2 \<noteq> []"
    by simp_all
  have d1: "flag_san ?ctx1 = []" and d2: "flag_san ?ctx2 = []"
    by (simp_all add: sampleContext_def)
  have k: "ca_CreateSignRequest sampleEnv ''tok-pinned'' = Inr (?req, PrivateKey ''key'')"
    by (simp add: sampleEnv_def)
  have k1: "ca_CreateSignRequest sampleEnv (flag_token ?ctx1) = Inr (?req, PrivateKey ''key'')"
    and k2: "ca_CreateSignRequest sampleEnv (flag_token ?ctx2) = Inr (?req, PrivateKey ''key'')"
    using k by simp_all
  note t1 = hostname_must_match_CommonName [OF a1 b1 c1 d1 k1, of "[]"]
  note t2 = hostname_must_match_CommonName [OF a2 b2 c2 d2 k2, of "[]"]
  have r1: "newCertificateAction sampleEnv ?ctx1 []
            = signAndSaveKey sampleEnv ?ctx1 ''tok-pinned'' ?req (PrivateKey ''key'')
                ''internal.crt'' ''internal.key'' [EvCreateSignRequest ''tok-pinned'']"
    using t1 by (simp add: sample_Args sample_ToLower sampleRequest_def)
  have r2: "newCertificateAction sampleEnv ?ctx2 []
            = (Inl (Errorf_hostname ''internal.example.com'' ''other.example.com''),
               [EvCreateSignRequest ''tok-pinned''])"
    using t2 by (simp add: sample_Args sample_ToLower sampleRequest_def)
  show ?thesis
    using a1 b1 c1 d1 k r1 r2 sample_pinned_exchange [of "''Internal.Example.COM''"] by simp
qed

text \<open>
  C10. In \<open>step ca certificate\<close>, online, with the token given or obtained through the
  token flow: when the hostname and the common name of the request differ after
  \<open>strings.ToLower\<close>, the action returns the mismatch error; the trace ends with the
  call that generated the key pair and the request, and it holds no write of a
  certificate file or key file beyond those already in the trace it started from.
\<close>

theorem mismatch_leaves_no_artifact:
  assumes "errs_NumberOfArguments e ctx 3 = None" and "\<not> flag_offline ctx"
    and "onlineToken e ctx (Args_Get ctx 0) (flag_token ctx) s = (Inr token, s1)"
    and "ca_CreateSignRequest e token = Inr (req, pk)"
    and "ToLower e (Args_Get ctx 0) \<noteq> ToLower e (Subject_CommonName (CsrPEM req))"
  shows "newCertificateAction e ctx s
           = (Inl (Errorf_hostname (Subject_CommonName (CsrPEM req)) (Args_Get ctx 0)),
              s1 @ [EvCreateSignRequest token])
       \<and> filter writesArtifact (s1 @ [EvCreateSignRequest token]) = filter writesArtifact s"
proof -
  have "filter writesArtifact s1 = filter writesArtifact s"
    using onlineToken_steps [of e ctx "Args_Get ctx 0" "flag_token ctx" s] assms(3)
    by auto
  moreover have "newCertificateAction e ctx s
           = (Inl (Errorf_hostname (Subject_CommonName (CsrPEM req)) (Args_Get ctx 0)),
              s1 @ [EvCreateSignRequest token])"
    using assms by (simp add: newCertificateAction_def createAndSign_def Let_def)
  ultimately show ?thesis by simp
qed

theorem mismatch_leaves_no_artifact_witness:
  "errs_NumberOfArguments sampleEnv
      (sampleContext\<lparr>Args := [''other.example.com'', ''internal.crt'', ''internal.key''],
                      flag_ca_url := ''https://ca.example.com''\<rparr>) 3 = None
   \<and> \<not> flag_offline (sampleContext\<lparr>Args := [''other.example.com'', ''internal.crt'', ''internal.key''],
                      flag_ca_url := ''https://ca.example.com''\<rparr>)
   \<and> onlineToken sampleEnv
        (sampleContext\<lparr>Args := [''other.example.com'', ''internal.crt'', ''internal.key''],
                        flag_ca_url := ''https://ca.example.com''\<rparr>)
        ''other.example.com'' [] []
       = (Inr ''tok-internal'',
          [EvStat ''/home/step/.step/certs/root_ca.crt'',
           EvNewTokenFlow ''other.example.com'' [] ''https://ca.example.com''
             ''/home/step/.step/certs/root_ca.crt'' TimeZero TimeZero])
   \<and> ca_CreateSignRequest sampleEnv ''tok-internal''
       = Inr (\<lparr>CsrPEM = sampleRequest, OTT = ''tok-internal'', NotBefore = TimeZero, NotAfter = TimeZero\<rparr>,
              PrivateKey ''key'')
   \<and> ToLower sampleEnv ''other.example.com'' \<noteq> ToLower sampleEnv (Subject_CommonName sampleRequest)
   \<and> newCertificateAction sampleEnv
        (sampleContext\<lparr>Args := [''other.example.com'', ''internal.crt'', ''internal.key''],
                        flag_ca_url := ''https://ca.example.com''\<rparr>) []
       = (Inl (Errorf_hostname ''internal.example.com'' ''other.example.com''),
          [EvStat ''/home/step/.step/certs/root_ca.crt'',
           EvNewTokenFlow ''other.example.com'' [] ''https://ca.example.com''
             ''/home/step/.step/certs/root_ca.crt'' TimeZero TimeZero,
           EvCreateSignRequest ''tok-internal''])
   \<and> filter writesArtifact
         [EvStat ''/home/step/.step/certs/root_ca.crt'',
          EvNewTokenFlow ''other.example.com'' [] ''https://ca.example.com''
            ''/home/step/.step/certs/root_ca.crt'' TimeZero TimeZero,
          EvCreateSignRequest ''tok-internal''] = []"
proof -
  let ?ctx = "sampleContext\<lparr>Args := [''other.example.com'', ''internal.crt'', ''internal.key''],
                            flag_ca_url := ''https://ca.example.com''\<rparr>"
  let ?req = "\<lparr>CsrPEM = sampleRequest, OTT = ''tok-internal'', NotBefore = TimeZero, NotAfter = TimeZero\<rparr>"
  let ?s1 = "[EvStat ''/home/step/.step/certs/root_ca.crt'',
              EvNewTokenFlow ''other.example.com'' [] ''https://ca.example.com''
                ''/home/step/.step/certs/root_ca.crt'' TimeZero TimeZero]"
  have g: "Args_Get ?ctx 0 = ''other.example.com''"
    by (simp add: Args_Get_def)
  have a: "errs_NumberOfArguments sampleEnv ?ctx 3 = None"
    by (simp add: sampleEnv_def)
  have b: "\<not> flag_offline ?ctx"
    by (simp add: sampleContext_def)
  have t: "onlineToken sampleEnv ?ctx ''other.example.com'' [] [] = (Inr ''tok-internal'', ?s1)"
    by (simp add: onlineToken_def signCertificateTokenFlow_def sample_defs Let_def)
  have t': "onlineToken sampleEnv ?ctx (Args_Get ?ctx 0) (flag_token ?ctx) [] = (Inr ''tok-internal'', ?s1)"
    using t g by (simp add: sampleContext_def)
  have k: "ca_CreateSignRequest sampleEnv ''tok-internal'' = Inr (?req, PrivateKey ''key'')"
    by (simp add: sampleEnv_def)
  have m: "ToLower sampleEnv ''other.example.com'' \<noteq> ToLower sampleEnv (Subject_CommonName sampleRequest)"
    by (simp add: sampleRequest_def sample_ToLower)
  have m': "ToLower sampleEnv (Args_Get ?ctx 0) \<noteq> ToLower sampleEnv (Subject_CommonName (CsrPEM ?req))"
    using m g by simp
  show ?thesis
    using a b t k m g mismatch_leaves_no_artifact [OF a b t' k m']
    by (simp add: sampleRequest_def)
qed

section \<open>Choice of the trust anchor\<close>

text \<open>
  C2. When the claims carry a non-empty \<open>sha\<close> and the first audience entry, lower-cased,
  starts with \<open>http\<close>, the client options are the fingerprint pin and the authority
  URL is that audience entry, whatever \<open>--ca-url\<close> and \<open>--root\<close> the caller gave, and no
  root file is looked up. In the signing operation, once the flags and the token
  have parsed and the names agree, the exchange is made with that URL and that pin:
  the client is built from them right after the token was parsed.
\<close>

theorem pinned_mode_selected:
  assumes "SHA claims \<noteq> []" and "Audience claims \<noteq> []"
    and "HasPrefix (ToLower e (hd (Audience claims))) ''http''"
  shows "clientOptions e claims caURL root s
           = (Inr (hd (Audience claims), [WithRootSHA256 (SHA claims)]), s)
       \<and> (flags_ParseTimeOrDuration e (flag_not_before ctx) = Some notBefore
          \<and> flags_ParseTimeOrDuration e (flag_not_after ctx) = Some notAfter
          \<and> jose_ParseSigned e token = Inr tok
          \<and> UnsafeClaimsWithoutVerification e tok = Inr claims
          \<and> ToLower e (Subject claims) = ToLower e (Subject_CommonName csr) \<longrightarrow>
            signCertificateRequest e ctx token csr crtFile s
              = signExchange e token csr crtFile notBefore notAfter
                  (hd (Audience claims)) [WithRootSHA256 (SHA claims)] (s @ [EvParseSigned token])
          \<and> (\<exists>rest. snd (signCertificateRequest e ctx token csr crtFile s)
                = s @ [EvParseSigned token,
                       EvPrintSelected ''CA'' (hd (Audience claims)),
                       EvNewClient (hd (Audience claims)) [WithRootSHA256 (SHA claims)]] @ rest))"
proof -
  have opts: "\<And>u r t. clientOptions e claims u r t
                = (Inr (hd (Audience claims), [WithRootSHA256 (SHA claims)]), t)"
    using assms by (simp add: clientOptions_def)
  have starts: "\<And>nb na u os t. \<exists>rest.
      snd (signExchange e token csr crtFile nb na u os t)
        = t @ [EvPrintSelected ''CA'' u, EvNewClient u os] @ rest"
    by (simp add: signExchange_def Let_def split: sum.split option.split)
  show ?thesis
  proof (intro conjI impI)
    show "clientOptions e claims caURL root s
            = (Inr (hd (Audience claims), [WithRootSHA256 (SHA claims)]), s)"
      by (rule opts)
  next
    assume h: "flags_ParseTimeOrDuration e (flag_not_before ctx) = Some notBefore
          \<and> flags_ParseTimeOrDuration e (flag_not_after ctx) = Some notAfter
          \<and> jose_ParseSigned e token = Inr tok
          \<and> UnsafeClaimsWithoutVerification e tok = Inr claims
          \<and> ToLower e (Subject claims) = ToLower e (Subject_CommonName csr)"
    then show eq: "signCertificateRequest e ctx token csr crtFile s
              = signExchange e token csr crtFile notBefore notAfter
                  (hd (Audience claims)) [WithRootSHA256 (SHA claims)] (s @ [EvParseSigned token])"
      by (simp add: signCertificateRequest_def Let_def opts)
    from starts [of notBefore notAfter "hd (Audience claims)" "[WithRootSHA256 (SHA claims)]"
                    "s @ [EvParseSigned token]"]
    show "\<exists>rest. snd (signCertificateRequest e ctx token csr crtFile s)
                = s @ [EvParseSigned token,
                       EvPrintSelected ''CA'' (hd (Audience claims)),
                       EvNewClient (hd (Audience claims)) [WithRootSHA256 (SHA claims)]] @ rest"
      unfolding eq by simp
  qed
qed

theorem pinned_mode_selected_witness:
  "SHA \<lparr>SHA = ''e3b0c442'', Subject = ''internal.example.com'',
         Audience = [''https://ca.example.com/1.0/sign'']\<rparr> \<noteq> []
   \<and> Audience \<lparr>SHA = ''e3b0c442'', Subject = ''internal.example.com'',
         Audience = [''https://ca.example.com/1.0/sign'']\<rparr> \<noteq> []
   \<and> HasPrefix (ToLower sampleEnv (hd (Audience \<lparr>SHA = ''e3b0c442'', Subject = ''internal.example.com'',
         Audience = [''https://ca.example.com/1.0/sign'']\<rparr>))) ''http''
   \<and> clientOptions sampleEnv
         \<lparr>SHA = ''e3b0c442'', Subject = ''internal.example.com'',
           Audience = [''https://ca.example.com/1.0/sign'']\<rparr>
         ''https://elsewhere.example.com'' ''/tmp/other_root.crt'' []
       = (Inr (''https://ca.example.com/1.0/sign'', [WithRootSHA256 ''e3b0c442'']), [])
   \<and> flags_ParseTimeOrDuration sampleEnv
         (flag_not_before (sampleContext\<lparr>flag_ca_url := ''https://elsewhere.example.com'',
                                          flag_root := ''/tmp/other_root.crt''\<rparr>)) = Some TimeZero
   \<and> flags_ParseTimeOrDuration sampleEnv
         (flag_not_after (sampleContext\<lparr>flag_ca_url := ''https://elsewhere.example.com'',
                                         flag_root := ''/tmp/other_root.crt''\<rparr>)) = Some TimeZero
   \<and> jose_ParseSigned sampleEnv ''tok-pinned'' = Inr (JSONWebToken ''tok-pinned'')
   \<and> UnsafeClaimsWithoutVerification sampleEnv (JSONWebToken ''tok-pinned'')
       = Inr \<lparr>SHA = ''e3b0c442'', Subject = ''internal.example.com'',
               Audience = [''https://ca.example.com/1.0/sign'']\<rparr>
   \<and> ToLower sampleEnv (Subject \<lparr>SHA = ''e3b0c442'', Subject = ''internal.example.com'',
         Audience = [''https://ca.example.com/1.0/sign'']\<rparr>)
       = ToLower sampleEnv (Subject_CommonName sampleRequest)
   \<and> signCertificateRequest sampleEnv
         (sampleContext\<lparr>flag_ca_url := ''https://elsewhere.example.com'',
                         flag_root := ''/tmp/other_root.crt''\<rparr>)
         ''tok-pinned'' sampleRequest ''internal.crt'' []
       = (Inr (),
          [EvParseSigned ''tok-pinned'',
           EvPrintSelected ''CA'' ''https://ca.example.com/1.0/sign'',
           EvNewClient ''https://ca.example.com/1.0/sign'' [WithRootSHA256 ''e3b0c442''],
           EvClientSign (Client 0)
             \<lparr>CsrPEM = sampleRequest, OTT = ''tok-pinned'', NotBefore = TimeZero, NotAfter = TimeZero\<rparr>,
           EvWriteFile ''internal.crt''
             ''-----BEGIN CERTIFICATE-----leaf-----END CERTIFICATE----------BEGIN CERTIFICATE-----root-----END CERTIFICATE-----''
             384])"
proof -
  let ?claims = "\<lparr>SHA = ''e3b0c442'', Subject = ''internal.example.com'',
                   Audience = [''https://ca.example.com/1.0/sign'']\<rparr>"
  let ?ctx = "sampleContext\<lparr>flag_ca_url := ''https://elsewhere.example.com'',
                            flag_root := ''/tmp/other_root.crt''\<rparr>"
  have a: "SHA ?claims \<noteq> []" and b: "Audience ?claims \<noteq> []"
    by simp_all
  have c: "HasPrefix (ToLower sampleEnv (hd (Audience ?claims))) ''http''"
    by (simp add: HasPrefix_def sample_ToLower)
  have p: "flags_ParseTimeOrDuration sampleEnv (flag_not_before ?ctx) = Some TimeZero"
    and q: "flags_ParseTimeOrDuration sampleEnv (flag_not_after ?ctx) = Some TimeZero"
    by (simp_all add: sample_defs)
  have j: "jose_ParseSigned sampleEnv ''tok-pinned'' = Inr (JSONWebToken ''tok-pinned'')"
    and u: "UnsafeClaimsWithoutVerification sampleEnv (JSONWebToken ''tok-pinned'') = Inr ?claims"
    by (simp_all add: sample_defs)
  have m: "ToLower sampleEnv (Subject ?claims) = ToLower sampleEnv (Subject_CommonName sampleRequest)"
    by (simp add: sampleRequest_def)
  note t = pinned_mode_selected [OF a b c,
      of "''https://elsewhere.example.com''" "''/tmp/other_root.crt''" "[]" ?ctx
         TimeZero TimeZero "''tok-pinned''" "JSONWebToken ''tok-pinned''" sampleRequest "''internal.crt''"]
  have o: "clientOptions sampleEnv ?claims ''https://elsewhere.example.com'' ''/tmp/other_root.crt'' []
           = (Inr (''https://ca.example.com/1.0/sign'', [WithRootSHA256 ''e3b0c442'']), [])"
    using t by simp
  have r: "signCertificateRequest sampleEnv ?ctx ''tok-pinned'' sampleRequest ''internal.crt'' []
           = signExchange sampleEnv ''tok-pinned'' sampleRequest ''internal.crt'' TimeZero TimeZero
               ''https://ca.example.com/1.0/sign'' [WithRootSHA256 ''e3b0c442'']
               [EvParseSigned ''tok-pinned'']"
    using t p q j u m by simp
  have x: "signExchange sampleEnv ''tok-pinned'' sampleRequest ''internal.crt'' TimeZero TimeZero
               ''https://ca.example.com/1.0/sign'' [WithRootSHA256 ''e3b0c442'']
               [EvParseSigned ''tok-pinned'']
           = (Inr (),
          [EvParseSigned ''tok-pinned'',
           EvPrintSelected ''CA'' ''https://ca.example.com/1.0/sign'',
           EvNewClient ''https://ca.example.com/1.0/sign'' [WithRootSHA256 ''e3b0c442''],
           EvClientSign (Client 0)
             \<lparr>CsrPEM = sampleRequest, OTT = ''tok-pinned'', NotBefore = TimeZero, NotAfter = TimeZero\<rparr>,
           EvWriteFile ''internal.crt''
             ''-----BEGIN CERTIFICATE-----leaf-----END CERTIFICATE----------BEGIN CERTIFICATE-----root-----END CERTIFICATE-----''
             384])"
    by (simp add: signExchange_def sampleEnv_def sampleResponse_def Let_def mode_0600_def)
  show ?thesis
    using a b c o p q j u m r x by simp
qed

section \<open>The validity window of the request\<close>

lemma signCertificateRequest_ClientSign:
  assumes "EvClientSign c r \<in> set (snd (signCertificateRequest e ctx token csr crtFile s))"
    and "EvClientSign c r \<notin> set s"
  shows "flags_ParseTimeOrDuration e (flag_not_before ctx) = Some (NotBefore r)
       \<and> flags_ParseTimeOrDuration e (flag_not_after ctx) = Some (NotAfter r)
       \<and> CsrPEM r = csr \<and> OTT r = token"
proof (cases "flags_ParseTimeOrDuration e (flag_not_before ctx)")
  case None
  with assms show ?thesis by (simp add: signCertificateRequest_def)
next
  case nb: (Some notBefore)
  show ?thesis
  proof (cases "flags_ParseTimeOrDuration e (flag_not_after ctx)")
    case None
    with assms nb show ?thesis by (simp add: signCertificateRequest_def)
  next
    case na: (Some notAfter)
    let ?s1 = "s @ [EvParseSigned token]"
    show ?thesis
    proof (cases "jose_ParseSigned e token")
      case (Inl err)
      with assms nb na show ?thesis by (simp add: signCertificateRequest_def Let_def)
    next
      case tok: (Inr tok)
      show ?thesis
      proof (cases "UnsafeClaimsWithoutVerification e tok")
        case (Inl err)
        with assms nb na tok show ?thesis by (simp add: signCertificateRequest_def Let_def)
      next
        case claims: (Inr claims)
        show ?thesis
        proof (cases "ToLower e (Subject claims) = ToLower e (Subject_CommonName csr)")
          case False
          with assms nb na tok claims show ?thesis
            by (simp add: signCertificateRequest_def Let_def)
        next
          case True
          obtain x t where co:
            "clientOptions e claims (flag_ca_url ctx) (flag_root ctx) ?s1 = (x, t)"
            by (cases "clientOptions e claims (flag_ca_url ctx) (flag_root ctx) ?s1") blast
          obtain pre where pre: "t = ?s1 @ pre" and nopre: "\<forall>c r. EvClientSign c r \<notin> set pre"
            using clientOptions_steps [of e claims "flag_ca_url ctx" "flag_root ctx" ?s1] co
            by auto
          show ?thesis
          proof (cases x)
            case (Inl err)
            then have "signCertificateRequest e ctx token csr crtFile s = (Inl err, ?s1 @ pre)"
              using nb na tok claims True pre co
              by (simp add: signCertificateRequest_def Let_def)
            with assms nopre show ?thesis by simp
          next
            case (Inr uo)
            obtain post where post:
              "snd (signExchange e token csr crtFile notBefore notAfter (fst uo) (snd uo) (?s1 @ pre))
                 = (?s1 @ pre) @ post"
              and sent: "\<forall>c r. EvClientSign c r \<in> set post \<longrightarrow>
                 r = \<lparr>CsrPEM = csr, OTT = token, NotBefore = notBefore, NotAfter = notAfter\<rparr>"
              using signExchange_steps [of e token csr crtFile notBefore notAfter "fst uo" "snd uo" "?s1 @ pre"]
              by blast
            have "signCertificateRequest e ctx token csr crtFile s
                    = signExchange e token csr crtFile notBefore notAfter (fst uo) (snd uo) (?s1 @ pre)"
              using nb na tok claims True pre co Inr
              by (simp add: signCertificateRequest_def Let_def split: prod.split)
            with assms post nopre have "EvClientSign c r \<in> set post" by simp
            with sent have "r = \<lparr>CsrPEM = csr, OTT = token, NotBefore = notBefore, NotAfter = notAfter\<rparr>"
              by blast
            with nb na show ?thesis by simp
          qed
        qed
      qed
    qed
  qed
qed

lemma signCertificateOfflineFlow_OfflineSign:
  assumes "EvOfflineSign oca r \<in> set (snd (signCertificateOfflineFlow e ctx subject crtFile keyFile s))"
    and "EvOfflineSign oca r \<notin> set s"
  shows "parseValidity e ctx = Inr (NotBefore r, NotAfter r)"
  using assms
  by (auto simp add: signCertificateOfflineFlow_def Let_def
      split: option.splits sum.splits prod.splits if_splits)

text \<open>
  C8, as stated, at an input where it fails: \<open>--not-before=2h --not-after=1h\<close>. Both
  flags parse, nothing compares them, and the request sent to the authority has its
  first bound an hour after its second.
\<close>

theorem validity_unordered_counterexample:
  "signCertificateRequest sampleEnv
       (sampleContext\<lparr>flag_not_before := ''2h'', flag_not_after := ''1h''\<rparr>)
       ''tok-pinned'' sampleRequest ''internal.crt'' []
     = (Inr (),
        [EvParseSigned ''tok-pinned'',
         EvPrintSelected ''CA'' ''https://ca.example.com/1.0/sign'',
         EvNewClient ''https://ca.example.com/1.0/sign'' [WithRootSHA256 ''e3b0c442''],
         EvClientSign (Client 0)
           \<lparr>CsrPEM = sampleRequest, OTT = ''tok-pinned'',
              NotBefore = TimeAt 8200, NotAfter = TimeAt 4600\<rparr>,
         EvWriteFile ''internal.crt''
           ''-----BEGIN CERTIFICATE-----leaf-----END CERTIFICATE----------BEGIN CERTIFICATE-----root-----END CERTIFICATE-----''
           384])
   \<and> \<not> validityOrdered \<lparr>CsrPEM = sampleRequest, OTT = ''tok-pinned'',
                           NotBefore = TimeAt 8200, NotAfter = TimeAt 4600\<rparr>"
  by (simp add: signCertificateRequest_def clientOptions_def signExchange_def
      HasPrefix_def sample_defs sample_ToLower Let_def mode_0600_def)

text \<open>
  C8, amended. Every signing request sent to the authority carries as its bounds
  exactly what the validity flags parsed to (online the two results of
  \<open>flags.ParseTimeOrDuration\<close>, offline the pair \<open>parseValidity\<close> returned), unchanged
  and uncompared; their order is left to the authority.
\<close>

theorem validity_sent_as_parsed:
  "(EvClientSign c r \<in> set (snd (signCertificateRequest e ctx token csr crtFile [])) \<longrightarrow>
      flags_ParseTimeOrDuration e (flag_not_before ctx) = Some (NotBefore r)
    \<and> flags_ParseTimeOrDuration e (flag_not_after ctx) = Some (NotAfter r))
 \<and> (EvOfflineSign oca r' \<in> set (snd (signCertificateOfflineFlow e ctx subject crtFile keyFile [])) \<longrightarrow>
      parseValidity e ctx = Inr (NotBefore r', NotAfter r'))"
  using signCertificateRequest_ClientSign [of c r e ctx token csr crtFile "[]"]
    signCertificateOfflineFlow_OfflineSign [of oca r' e ctx subject crtFile keyFile "[]"]
  by simp

theorem validity_sent_as_parsed_witness:
  "EvClientSign (Client 0)
      \<lparr>CsrPEM = sampleRequest, OTT = ''tok-pinned'', NotBefore = TimeZero, NotAfter = TimeAt 4600\<rparr>
     \<in> set (snd (signCertificateRequest sampleEnv
          (sampleContext\<lparr>flag_offline := True, flag_not_after := ''1h'', flag_ca_config := ''ca.json''\<rparr>)
          ''tok-pinned'' sampleRequest ''internal.crt'' []))
   \<and> flags_ParseTimeOrDuration sampleEnv [] = Some TimeZero
   \<and> flags_ParseTimeOrDuration sampleEnv ''1h'' = Some (TimeAt 4600)
   \<and> EvOfflineSign (OfflineCA 0)
      \<lparr>CsrPEM = sampleRequest, OTT = ''tok-internal'', NotBefore = TimeZero, NotAfter = TimeAt 4600\<rparr>
     \<in> set (snd (signCertificateOfflineFlow sampleEnv
          (sampleContext\<lparr>flag_offline := True, flag_not_after := ''1h'', flag_ca_config := ''ca.json''\<rparr>)
          ''internal.example.com'' ''internal.crt'' ''internal.key'' []))
   \<and> parseValidity sampleEnv
        (sampleContext\<lparr>flag_offline := True, flag_not_after := ''1h'', flag_ca_config := ''ca.json''\<rparr>)
       = Inr (TimeZero, TimeAt 4600)"
proof -
  let ?ctx = "sampleContext\<lparr>flag_offline := True, flag_not_after := ''1h'', flag_ca_config := ''ca.json''\<rparr>"
  let ?r = "\<lparr>CsrPEM = sampleRequest, OTT = ''tok-pinned'', NotBefore = TimeZero, NotAfter = TimeAt 4600\<rparr>"
  let ?r' = "\<lparr>CsrPEM = sampleRequest, OTT = ''tok-internal'', NotBefore = TimeZero, NotAfter = TimeAt 4600\<rparr>"
  have a: "EvClientSign (Client 0) ?r
             \<in> set (snd (signCertificateRequest sampleEnv ?ctx ''tok-pinned'' sampleRequest ''internal.crt'' []))"
    by (simp add: sample_online_run)
  have b: "EvOfflineSign (OfflineCA 0) ?r'
             \<in> set (snd (signCertificateOfflineFlow sampleEnv ?ctx
                  ''internal.example.com'' ''internal.crt'' ''internal.key'' []))"
    by (simp add: sample_offline_run)
  have f: "flag_not_before ?ctx = []" "flag_not_after ?ctx = ''1h''"
    by (simp_all add: sampleContext_def)
  show ?thesis
    using a b f
      validity_sent_as_parsed [of "Client 0" ?r sampleEnv ?ctx "''tok-pinned''" sampleRequest
        "''internal.crt''" "OfflineCA 0" ?r' "''internal.example.com''" "''internal.key''"]
    by simp
qed

section \<open>The artifacts of a successful issuance\<close>

lemma signExchange_success:
  assumes "signExchange e token csr crtFile nb na caURL options s = (Inr (), s')"
  shows "\<exists>client resp data.
           Client_Sign e client \<lparr>CsrPEM = csr, OTT = token, NotBefore = nb, NotAfter = na\<rparr> = Inr resp
         \<and> twoPEMBlocks e resp = Some data
         \<and> s' = s @ [EvPrintSelected ''CA'' caURL, EvNewClient caURL options,
                      EvClientSign client \<lparr>CsrPEM = csr, OTT = token, NotBefore = nb, NotAfter = na\<rparr>,
                      EvWriteFile crtFile data mode_0600]"
proof -
  let ?req = "\<lparr>CsrPEM = csr, OTT = token, NotBefore = nb, NotAfter = na\<rparr>"
  from assms obtain client resp leaf authority where
      "Client_Sign e client ?req = Inr resp"
      "pemutil_Serialize e (ServerPEM resp) = Inr leaf"
      "pemutil_Serialize e (CaPEM resp) = Inr authority"
      "s' = s @ [EvPrintSelected ''CA'' caURL, EvNewClient caURL options, EvClientSign client ?req,
                 EvWriteFile crtFile (pem_EncodeToMemory e leaf @ pem_EncodeToMemory e authority)
                   mode_0600]"
    by (auto simp add: signExchange_def Let_def split: sum.splits option.splits)
  then show ?thesis
    by (simp add: twoPEMBlocks_def)
qed

lemma signCertificateRequest_success:
  assumes "signCertificateRequest e ctx token csr crtFile s = (Inr (), s')"
  shows "\<exists>pre c r resp data.
           s' = s @ pre @ [EvClientSign c r, EvWriteFile crtFile data mode_0600]
         \<and> filter writesArtifact pre = []
         \<and> Client_Sign e c r = Inr resp \<and> twoPEMBlocks e resp = Some data"
proof -
  let ?s1 = "s @ [EvParseSigned token]"
  from assms obtain nb na claims u os t where
      co: "clientOptions e claims (flag_ca_url ctx) (flag_root ctx) ?s1 = (Inr (u, os), t)"
      and ex: "signExchange e token csr crtFile nb na u os t = (Inr (), s')"
    by (auto simp add: signCertificateRequest_def Let_def
        split: option.splits sum.splits prod.splits if_splits)
  obtain pre where pre: "t = ?s1 @ pre" and quiet: "filter writesArtifact pre = []"
    using clientOptions_steps [of e claims "flag_ca_url ctx" "flag_root ctx" ?s1] co by auto
  let ?r = "\<lparr>CsrPEM = csr, OTT = token, NotBefore = nb, NotAfter = na\<rparr>"
  from signExchange_success [OF ex] obtain c resp data where
      sg: "Client_Sign e c ?r = Inr resp" and two: "twoPEMBlocks e resp = Some data"
      and tr: "s' = t @ [EvPrintSelected ''CA'' u, EvNewClient u os, EvClientSign c ?r,
                         EvWriteFile crtFile data mode_0600]"
    by blast
  let ?pre = "[EvParseSigned token] @ pre @ [EvPrintSelected ''CA'' u, EvNewClient u os]"
  have "s' = s @ ?pre @ [EvClientSign c ?r, EvWriteFile crtFile data mode_0600]"
    using tr pre by simp
  moreover have "filter writesArtifact ?pre = []"
    using quiet by simp
  ultimately show ?thesis
    using sg two by blast
qed

lemma signCertificateOfflineFlow_success:
  assumes "signCertificateOfflineFlow e ctx subject crtFile keyFile s = (Inr (), s')"
  shows "\<exists>oca token req pk r resp data.
           s' = s @ [EvNewOfflineCA (flag_ca_config ctx), EvGenerateToken oca subject,
                     EvCreateSignRequest token, EvOfflineSign oca r,
                     EvWriteFile crtFile data mode_0600,
                     EvSerializeToFile pk keyFile mode_0600,
                     EvPrintSelected ''Certificate'' crtFile,
                     EvPrintSelected ''Private Key'' keyFile]
         \<and> ca_CreateSignRequest e token = Inr (req, pk)
         \<and> parseValidity e ctx = Inr (NotBefore r, NotAfter r)
         \<and> offlineCA_Sign e oca r = Inr resp \<and> twoPEMBlocks e resp = Some data"
proof -
  from assms obtain oca token req pk nb na resp leaf authority where
      "ca_CreateSignRequest e token = Inr (req, pk)"
      "parseValidity e ctx = Inr (nb, na)"
      "offlineCA_Sign e oca (req\<lparr>NotAfter := na, NotBefore := nb\<rparr>) = Inr resp"
      "pemutil_Serialize e (ServerPEM resp) = Inr leaf"
      "pemutil_Serialize e (CaPEM resp) = Inr authority"
      "s' = s @ [EvNewOfflineCA (flag_ca_config ctx), EvGenerateToken oca subject,
                 EvCreateSignRequest token, EvOfflineSign oca (req\<lparr>NotAfter := na, NotBefore := nb\<rparr>),
                 EvWriteFile crtFile (pem_EncodeToMemory e leaf @ pem_EncodeToMemory e authority) mode_0600,
                 EvSerializeToFile pk keyFile mode_0600,
                 EvPrintSelected ''Certificate'' crtFile,
                 EvPrintSelected ''Private Key'' keyFile]"
    by (auto simp add: signCertificateOfflineFlow_def Let_def
        split: option.splits sum.splits prod.splits if_splits)
  then show ?thesis
    by (simp add: twoPEMBlocks_def)
qed

lemma newCertificateAction_online_success:
  assumes ok: "newCertificateAction e ctx s = (Inr (), s')" and online: "\<not> flag_offline ctx"
  shows "\<exists>pre c r resp data pk token req.
           s' = s @ pre @ [EvClientSign c r,
                           EvWriteFile (Args_Get ctx 1) data mode_0600,
                           EvSerializeToFile pk (Args_Get ctx 2) mode_0600,
                           EvPrintSelected ''Certificate'' (Args_Get ctx 1),
                           EvPrintSelected ''Private Key'' (Args_Get ctx 2)]
         \<and> filter writesArtifact pre = []
         \<and> Client_Sign e c r = Inr resp \<and> twoPEMBlocks e resp = Some data
         \<and> EvCreateSignRequest token \<in> set pre \<and> ca_CreateSignRequest e token = Inr (req, pk)"
proof -
  let ?crt = "Args_Get ctx 1" and ?key = "Args_Get ctx 2"
  from ok online obtain token s1 where
      tk: "onlineToken e ctx (Args_Get ctx 0) (flag_token ctx) s = (Inr token, s1)"
      and cs: "createAndSign e ctx (Args_Get ctx 0) token ?crt ?key s1 = (Inr (), s')"
    by (auto simp add: newCertificateAction_def Let_def
        split: option.splits sum.splits prod.splits if_splits)
  obtain pre0 where pre0: "s1 = s @ pre0" and quiet0: "filter writesArtifact pre0 = []"
    using onlineToken_steps [of e ctx "Args_Get ctx 0" "flag_token ctx" s] tk by auto
  from cs obtain req pk s2 where
      mk: "ca_CreateSignRequest e token = Inr (req, pk)"
      and sg: "signCertificateRequest e ctx token (CsrPEM req) ?crt (s1 @ [EvCreateSignRequest token])
                 = (Inr (), s2)"
      and fin: "s' = s2 @ [EvSerializeToFile pk ?key mode_0600,
                           EvPrintSelected ''Certificate'' ?crt,
                           EvPrintSelected ''Private Key'' ?key]"
    by (auto simp add: createAndSign_def signAndSaveKey_def Let_def
        split: option.splits sum.splits prod.splits if_splits)
  from signCertificateRequest_success [OF sg] obtain pre c r resp data where
      tr: "s2 = (s1 @ [EvCreateSignRequest token]) @ pre @ [EvClientSign c r, EvWriteFile ?crt data mode_0600]"
      and quiet: "filter writesArtifact pre = []"
      and rs: "Client_Sign e c r = Inr resp" and two: "twoPEMBlocks e resp = Some data"
    by blast
  let ?pre = "pre0 @ [EvCreateSignRequest token] @ pre"
  have "s' = s @ ?pre @ [EvClientSign c r, EvWriteFile ?crt data mode_0600,
                         EvSerializeToFile pk ?key mode_0600,
                         EvPrintSelected ''Certificate'' ?crt,
                         EvPrintSelected ''Private Key'' ?key]"
    using fin tr pre0 by simp
  moreover have "filter writesArtifact ?pre = []"
    using quiet0 quiet by simp
  moreover have "EvCreateSignRequest token \<in> set ?pre"
    by simp
  ultimately show ?thesis
    using rs two mk by blast
qed

lemma newCertificateAction_offline_success:
  assumes ok: "newCertificateAction e ctx s = (Inr (), s')" and offline: "flag_offline ctx"
  shows "\<exists>pre oca r resp data pk token req.
           s' = s @ pre @ [EvOfflineSign oca r,
                           EvWriteFile (Args_Get ctx 1) data mode_0600,
                           EvSerializeToFile pk (Args_Get ctx 2) mode_0600,
                           EvPrintSelected ''Certificate'' (Args_Get ctx 1),
                           EvPrintSelected ''Private Key'' (Args_Get ctx 2)]
         \<and> filter writesArtifact pre = []
         \<and> offlineCA_Sign e oca r = Inr resp \<and> twoPEMBlocks e resp = Some data
         \<and> EvCreateSignRequest token \<in> set pre \<and> ca_CreateSignRequest e token = Inr (req, pk)"
proof -
  let ?crt = "Args_Get ctx 1" and ?key = "Args_Get ctx 2"
  from ok offline have
      "signCertificateOfflineFlow e ctx (Args_Get ctx 0) ?crt ?key s = (Inr (), s')"
    by (auto simp add: newCertificateAction_def Let_def split: option.splits if_splits)
  from signCertificateOfflineFlow_success [OF this] obtain oca token req pk r resp data where
      tr: "s' = s @ [EvNewOfflineCA (flag_ca_config ctx), EvGenerateToken oca (Args_Get ctx 0),
                     EvCreateSignRequest token, EvOfflineSign oca r,
                     EvWriteFile ?crt data mode_0600,
                     EvSerializeToFile pk ?key mode_0600,
                     EvPrintSelected ''Certificate'' ?crt,
                     EvPrintSelected ''Private Key'' ?key]"
      and mk: "ca_CreateSignRequest e token = Inr (req, pk)"
      and rs: "offlineCA_Sign e oca r = Inr resp" and two: "twoPEMBlocks e resp = Some data"
    by blast
  let ?pre = "[EvNewOfflineCA (flag_ca_config ctx), EvGenerateToken oca (Args_Get ctx 0),
               EvCreateSignRequest token]"
  have "s' = s @ ?pre @ [EvOfflineSign oca r, EvWriteFile ?crt data mode_0600,
                         EvSerializeToFile pk ?key mode_0600,
                         EvPrintSelected ''Certificate'' ?crt,
                         EvPrintSelected ''Private Key'' ?key]"
    using tr by simp
  moreover have "filter writesArtifact ?pre = []" by simp
  moreover have "EvCreateSignRequest token \<in> set ?pre" by simp
  ultimately show ?thesis
    using rs two mk by blast
qed

lemma signCertificateAction_success:
  assumes ok: "signCertificateAction e ctx s = (Inr (), s')"
  shows "\<exists>pre c r resp data.
           s' = s @ pre @ [EvClientSign c r,
                           EvWriteFile (Args_Get ctx 1) data mode_0600,
                           EvPrintSelected ''Certificate'' (Args_Get ctx 1)]
         \<and> filter writesArtifact pre = []
         \<and> Client_Sign e c r = Inr resp \<and> twoPEMBlocks e resp = Some data"
proof -
  let ?csrFile = "Args_Get ctx 0" and ?crt = "Args_Get ctx 1"
  let ?s1 = "s @ [EvRead ?csrFile]"
  from ok obtain csr token s2 s3 where
      tk: "signToken e ctx csr (flag_token ctx) ?s1 = (Inr token, s2)"
      and sg: "signCertificateRequest e ctx token csr ?crt s2 = (Inr (), s3)"
      and fin: "s' = s3 @ [EvPrintSelected ''Certificate'' ?crt]"
    by (auto simp add: signCertificateAction_def Let_def
        split: option.splits sum.splits prod.splits pem_object.splits)
  obtain pre0 where pre0: "s2 = ?s1 @ pre0" and quiet0: "filter writesArtifact pre0 = []"
    using signToken_steps [of e ctx csr "flag_token ctx" ?s1] tk by auto
  from signCertificateRequest_success [OF sg] obtain pre c r resp data where
      tr: "s3 = s2 @ pre @ [EvClientSign c r, EvWriteFile ?crt data mode_0600]"
      and quiet: "filter writesArtifact pre = []"
      and rs: "Client_Sign e c r = Inr resp" and two: "twoPEMBlocks e resp = Some data"
    by blast
  let ?pre = "[EvRead ?csrFile] @ pre0 @ pre"
  have "s' = s @ ?pre @ [EvClientSign c r, EvWriteFile ?crt data mode_0600,
                         EvPrintSelected ''Certificate'' ?crt]"
    using fin tr pre0 by simp
  moreover have "filter writesArtifact ?pre = []"
    using quiet0 quiet by simp
  ultimately show ?thesis
    using rs two by blast
qed

text \<open>
  C9. When \<open>step ca certificate\<close> succeeds, online or offline, the trace it adds ends
  with the signing call, the write of the certificate file, the write of the key
  file and the two messages. The certificate file receives, with mode 0600, the PEM
  block of the leaf certificate followed by the PEM block of the authority's
  certificate, both taken from the response to that signing call; the key file
  receives, with mode 0600, the key that \<open>ca.CreateSignRequest\<close> generated; nothing
  else was written before. When \<open>step ca sign\<close> succeeds, the same holds for its
  certificate file, and no key file is written.
\<close>

theorem issuance_artifacts:
  "(newCertificateAction e ctx s = (Inr (), s') \<longrightarrow>
      (\<exists>pre signed resp data pk token req.
          s' = s @ pre @ [signed,
                          EvWriteFile (Args_Get ctx 1) data mode_0600,
                          EvSerializeToFile pk (Args_Get ctx 2) mode_0600,
                          EvPrintSelected ''Certificate'' (Args_Get ctx 1),
                          EvPrintSelected ''Private Key'' (Args_Get ctx 2)]
        \<and> filter writesArtifact pre = []
        \<and> ((\<exists>c r. signed = EvClientSign c r \<and> Client_Sign e c r = Inr resp)
           \<or> (\<exists>oca r. signed = EvOfflineSign oca r \<and> offlineCA_Sign e oca r = Inr resp))
        \<and> twoPEMBlocks e resp = Some data
        \<and> EvCreateSignRequest token \<in> set pre \<and> ca_CreateSignRequest e token = Inr (req, pk)))
 \<and> (signCertificateAction e ctx s = (Inr (), s') \<longrightarrow>
      (\<exists>pre c r resp data.
          s' = s @ pre @ [EvClientSign c r,
                          EvWriteFile (Args_Get ctx 1) data mode_0600,
                          EvPrintSelected ''Certificate'' (Args_Get ctx 1)]
        \<and> filter writesArtifact pre = []
        \<and> Client_Sign e c r = Inr resp \<and> twoPEMBlocks e resp = Some data))"
proof (intro conjI impI)
  assume ok: "newCertificateAction e ctx s = (Inr (), s')"
  show "\<exists>pre signed resp data pk token req.
          s' = s @ pre @ [signed,
                          EvWriteFile (Args_Get ctx 1) data mode_0600,
                          EvSerializeToFile pk (Args_Get ctx 2) mode_0600,
                          EvPrintSelected ''Certificate'' (Args_Get ctx 1),
                          EvPrintSelected ''Private Key'' (Args_Get ctx 2)]
        \<and> filter writesArtifact pre = []
        \<and> ((\<exists>c r. signed = EvClientSign c r \<and> Client_Sign e c r = Inr resp)
           \<or> (\<exists>oca r. signed = EvOfflineSign oca r \<and> offlineCA_Sign e oca r = Inr resp))
        \<and> twoPEMBlocks e resp = Some data
        \<and> EvCreateSignRequest token \<in> set pre \<and> ca_CreateSignRequest e token = Inr (req, pk)"
  proof (cases "flag_offline ctx")
    case True
    from newCertificateAction_offline_success [OF ok True] show ?thesis by blast
  next
    case False
    from newCertificateAction_online_success [OF ok False] show ?thesis by blast
  qed
next
  assume "signCertificateAction e ctx s = (Inr (), s')"
  then show "\<exists>pre c r resp data.
          s' = s @ pre @ [EvClientSign c r,
                          EvWriteFile (Args_Get ctx 1) data mode_0600,
                          EvPrintSelected ''Certificate'' (Args_Get ctx 1)]
        \<and> filter writesArtifact pre = []
        \<and> Client_Sign e c r = Inr resp \<and> twoPEMBlocks e resp = Some data"
    by (rule signCertificateAction_success)
qed

theorem issuance_artifacts_witness:
  "newCertificateAction sampleEnv (sampleContext\<lparr>flag_token := ''tok-pinned''\<rparr>) []
    = (Inr (),
       [EvCreateSignRequest ''tok-pinned'',
        EvParseSigned ''tok-pinned'',
        EvPrintSelected ''CA'' ''https://ca.example.com/1.0/sign'',
        EvNewClient ''https://ca.example.com/1.0/sign'' [WithRootSHA256 ''e3b0c442''],
        EvClientSign (Client 0)
          \<lparr>CsrPEM = sampleRequest, OTT = ''tok-pinned'', NotBefore = TimeZero, NotAfter = TimeZero\<rparr>,
        EvWriteFile ''internal.crt''
          ''-----BEGIN CERTIFICATE-----leaf-----END CERTIFICATE----------BEGIN CERTIFICATE-----root-----END CERTIFICATE-----''
          384,
        EvSerializeToFile (PrivateKey ''key'') ''internal.key'' 384,
        EvPrintSelected ''Certificate'' ''internal.crt'',
        EvPrintSelected ''Private Key'' ''internal.key''])
   \<and> (\<exists>pre signed resp pk token req.
         [EvCreateSignRequest ''tok-pinned'',
          EvParseSigned ''tok-pinned'',
          EvPrintSelected ''CA'' ''https://ca.example.com/1.0/sign'',
          EvNewClient ''https://ca.example.com/1.0/sign'' [WithRootSHA256 ''e3b0c442''],
          EvClientSign (Client 0)
            \<lparr>CsrPEM = sampleRequest, OTT = ''tok-pinned'', NotBefore = TimeZero, NotAfter = TimeZero\<rparr>]
           = pre @ [signed]
       \<and> filter writesArtifact pre = []
       \<and> ((\<exists>c r. signed = EvClientSign c r \<and> Client_Sign sampleEnv c r = Inr resp)
          \<or> (\<exists>oca r. signed = EvOfflineSign oca r \<and> offlineCA_Sign sampleEnv oca r = Inr resp))
       \<and> twoPEMBlocks sampleEnv resp
            = Some ''-----BEGIN CERTIFICATE-----leaf-----END CERTIFICATE----------BEGIN CERTIFICATE-----root-----END CERTIFICATE-----''
       \<and> EvCreateSignRequest token \<in> set pre
       \<and> ca_CreateSignRequest sampleEnv token = Inr (req, PrivateKey ''key''))
   \<and> signCertificateAction sampleEnv
        (sampleContext\<lparr>Args := [''internal.csr'', ''internal.crt''], flag_token := ''tok-pinned''\<rparr>) []
    = (Inr (),
       [EvRead ''internal.csr'',
        EvParseSigned ''tok-pinned'',
        EvPrintSelected ''CA'' ''https://ca.example.com/1.0/sign'',
        EvNewClient ''https://ca.example.com/1.0/sign'' [WithRootSHA256 ''e3b0c442''],
        EvClientSign (Client 0)
          \<lparr>CsrPEM = sampleRequest, OTT = ''tok-pinned'', NotBefore = TimeZero, NotAfter = TimeZero\<rparr>,
        EvWriteFile ''internal.crt''
          ''-----BEGIN CERTIFICATE-----leaf-----END CERTIFICATE----------BEGIN CERTIFICATE-----root-----END CERTIFICATE-----''
          384,
        EvPrintSelected ''Certificate'' ''internal.crt''])
   \<and> (\<exists>pre c r resp.
         [EvRead ''internal.csr'',
          EvParseSigned ''tok-pinned'',
          EvPrintSelected ''CA'' ''https://ca.example.com/1.0/sign'',
          EvNewClient ''https://ca.example.com/1.0/sign'' [WithRootSHA256 ''e3b0c442''],
          EvClientSign (Client 0)
            \<lparr>CsrPEM = sampleRequest, OTT = ''tok-pinned'', NotBefore = TimeZero, NotAfter = TimeZero\<rparr>]
           = pre @ [EvClientSign c r]
       \<and> filter writesArtifact pre = []
       \<and> Client_Sign sampleEnv c r = Inr resp
       \<and> twoPEMBlocks sampleEnv resp
            = Some ''-----BEGIN CERTIFICATE-----leaf-----END CERTIFICATE----------BEGIN CERTIFICATE-----root-----END CERTIFICATE-----'')"
proof -
  let ?ctxA = "sampleContext\<lparr>flag_token := ''tok-pinned''\<rparr>"
  let ?ctxB = "sampleContext\<lparr>Args := [''internal.csr'', ''internal.crt''], flag_token := ''tok-pinned''\<rparr>"
  have gA: "Args_Get ?ctxA 1 = ''internal.crt''" "Args_Get ?ctxA 2 = ''internal.key''"
    by (simp_all add: Args_Get_def sampleContext_def)
  have gB: "Args_Get ?ctxB 1 = ''internal.crt''"
    by (simp add: Args_Get_def)
  note tA = issuance_artifacts [of sampleEnv ?ctxA "[]", THEN conjunct1, rule_format,
      OF sample_certificate_run]
  note tB = issuance_artifacts [of sampleEnv ?ctxB "[]", THEN conjunct2, rule_format,
      OF sample_sign_run]
  from tA obtain pre signed resp data pk token req where
      a1: "[EvCreateSignRequest ''tok-pinned'',
          EvParseSigned ''tok-pinned'',
          EvPrintSelected ''CA'' ''https://ca.example.com/1.0/sign'',
          EvNewClient ''https://ca.example.com/1.0/sign'' [WithRootSHA256 ''e3b0c442''],
          EvClientSign (Client 0)
            \<lparr>CsrPEM = sampleRequest, OTT = ''tok-pinned'', NotBefore = TimeZero, NotAfter = TimeZero\<rparr>]
           = pre @ [signed]"
      and a2: "data = ''-----BEGIN CERTIFICATE-----leaf-----END CERTIFICATE----------BEGIN CERTIFICATE-----root-----END CERTIFICATE-----''"
      and a3: "pk = PrivateKey ''key''"
      and a4: "filter writesArtifact pre = []"
      and a5: "(\<exists>c r. signed = EvClientSign c r \<and> Client_Sign sampleEnv c r = Inr resp)
          \<or> (\<exists>oca r. signed = EvOfflineSign oca r \<and> offlineCA_Sign sampleEnv oca r = Inr resp)"
      and a6: "twoPEMBlocks sampleEnv resp = Some data"
      and a7: "EvCreateSignRequest token \<in> set pre"
      and a8: "ca_CreateSignRequest sampleEnv token = Inr (req, pk)"
    unfolding gA by (auto simp add: append_eq_Cons_conv Cons_eq_append_conv)
  from tB obtain pre' c r resp' data' where
      b1: "[EvRead ''internal.csr'',
          EvParseSigned ''tok-pinned'',
          EvPrintSelected ''CA'' ''https://ca.example.com/1.0/sign'',
          EvNewClient ''https://ca.example.com/1.0/sign'' [WithRootSHA256 ''e3b0c442''],
          EvClientSign (Client 0)
            \<lparr>CsrPEM = sampleRequest, OTT = ''tok-pinned'', NotBefore = TimeZero, NotAfter = TimeZero\<rparr>]
           = pre' @ [EvClientSign c r]"
      and b2: "data' = ''-----BEGIN CERTIFICATE-----leaf-----END CERTIFICATE----------BEGIN CERTIFICATE-----root-----END CERTIFICATE-----''"
      and b4: "filter writesArtifact pre' = []"
      and b5: "Client_Sign sampleEnv c r = Inr resp'"
      and b6: "twoPEMBlocks sampleEnv resp' = Some data'"
    unfolding gB by (auto simp add: append_eq_Cons_conv Cons_eq_append_conv)
  have A: "\<exists>pre signed resp pk token req.
         [EvCreateSignRequest ''tok-pinned'',
          EvParseSigned ''tok-pinned'',
          EvPrintSelected ''CA'' ''https://ca.example.com/1.0/sign'',
          EvNewClient ''https://ca.example.com/1.0/sign'' [WithRootSHA256 ''e3b0c442''],
          EvClientSign (Client 0)
            \<lparr>CsrPEM = sampleRequest, OTT = ''tok-pinned'', NotBefore = TimeZero, NotAfter = TimeZero\<rparr>]
           = pre @ [signed]
       \<and> filter writesArtifact pre = []
       \<and> ((\<exists>c r. signed = EvClientSign c r \<and> Client_Sign sampleEnv c r = Inr resp)
          \<or> (\<exists>oca r. signed = EvOfflineSign oca r \<and> offlineCA_Sign sampleEnv oca r = Inr resp))
       \<and> twoPEMBlocks sampleEnv resp
            = Some ''-----BEGIN CERTIFICATE-----leaf-----END CERTIFICATE----------BEGIN CERTIFICATE-----root-----END CERTIFICATE-----''
       \<and> EvCreateSignRequest token \<in> set pre
       \<and> ca_CreateSignRequest sampleEnv token = Inr (req, PrivateKey ''key'')"
    using a1 a2 a3 a4 a5 a6 a7 a8 by blast
  have B: "\<exists>pre c r resp.
         [EvRead ''internal.csr'',
          EvParseSigned ''tok-pinned'',
          EvPrintSelected ''CA'' ''https://ca.example.com/1.0/sign'',
          EvNewClient ''https://ca.example.com/1.0/sign'' [WithRootSHA256 ''e3b0c442''],
          EvClientSign (Client 0)
            \<lparr>CsrPEM = sampleRequest, OTT = ''tok-pinned'', NotBefore = TimeZero, NotAfter = TimeZero\<rparr>]
           = pre @ [EvClientSign c r]
       \<and> filter writesArtifact pre = []
       \<and> Client_Sign sampleEnv c r = Inr resp
       \<and> twoPEMBlocks sampleEnv resp
            = Some ''-----BEGIN CERTIFICATE-----leaf-----END CERTIFICATE----------BEGIN CERTIFICATE-----root-----END CERTIFICATE-----''"
    using b1 b2 b4 b5 b6 by blast
  show ?thesis
    using sample_certificate_run sample_sign_run A B by blast
qed

end
